theory Spec2Isabelle
  imports
    Main
    "HOL-Library.Word"
    "HOL-Library.Sublist"
    "HOL-Library.Char_ord"
    "HOL-Library.List_Lexorder"
begin

section \<open>Data model of \<^verbatim>\<open>openai.go\<close>\<close>

text \<open>
  Go strings are byte sequences; \<^typ>\<open>string\<close> is a list of 8-bit characters, so one
  \<^typ>\<open>char\<close> is one byte of the Go string.

  A \<^verbatim>\<open>float64\<close> is kept as its 64-bit pattern: the program only copies such values,
  it never computes with them.

  The fields of type \<^verbatim>\<open>interface{}\<close> hold what \<^verbatim>\<open>encoding/json\<close> puts there
  (nil, bool, float64, string, slices and maps of these) or what the program stores itself
  (strings, ints, maps); \<open>json\<close> is the sum of these shapes. A Go map is an association
  list under \<open>JMap\<close>: the encoder writes its entries ordered by key. A struct handed to
  the encoder is the list of its JSON fields under \<open>JStruct\<close>, written in the order of
  declaration.
\<close>

datatype float64 = Float64 (bits: "64 word")

datatype json =
    JNull
  | JBool bool
  | JInt int
  | JFloat float64
  | JString string
  | JArray "json list"
  | JStruct "(string \<times> json) list"
  | JMap "(string \<times> json) list"

text \<open>
  Several structs share field names (\<^verbatim>\<open>Model\<close>, \<^verbatim>\<open>ID\<close>, \<^verbatim>\<open>Content\<close>, ...); a field is
  always written with its record's name in front, as in \<open>Config.Model cfg\<close>.
  The \<^verbatim>\<open>int\<close> and \<^verbatim>\<open>int64\<close> fields are copied from the backend's answer to the reply
  and never computed with, so they are plain integers here.
\<close>

record Config =
  AccountID :: string
  Model :: string
  AuthToken :: string
  Port :: string
  ClientKey :: string

record Message =
  Role :: string
  Content :: json

record OpenAIRequest =
  Model :: string
  Messages :: "Message list"
  Stream :: bool
  Temperature :: "float64 option"
  TopP :: "float64 option"

record Usage =
  PromptTokens :: int
  CompletionTokens :: int
  TotalTokens :: int

record Choice =
  Index :: int
  Message :: Message
  FinishReason :: string

record OpenAIResponse =
  ID :: string
  Object :: string
  Created :: int
  Model :: string
  Choices :: "Choice list"
  Usage :: Usage

record CloudflareRequest =
  Model :: string
  Input :: "(string \<times> json) list list"
  Temperature :: "float64 option"
  TopP :: "float64 option"

record CloudflareContentItem =
  Text :: string
  Type :: string

record CloudflareOutputItem =
  ID :: string
  Content :: "CloudflareContentItem list"
  Role :: string
  Type :: string
  Status :: string

record CloudflareUsage =
  PromptTokens :: int
  CompletionTokens :: int
  TotalTokens :: int

record CloudflareResponse =
  ID :: string
  Created :: int
  Model :: string
  Object :: string
  Output :: "CloudflareOutputItem list"
  Usage :: CloudflareUsage

section \<open>The Go runtime and library functions the program calls\<close>

text \<open>
  These are not code of the repository. Each definition follows the documented behaviour
  of the Go function it is named after; the program's own functions below call them.
\<close>

subsection \<open>Strings and runes (\<^verbatim>\<open>[]rune(s)\<close>, \<^verbatim>\<open>string(r)\<close>, package \<^verbatim>\<open>unicode/utf8\<close>)\<close>

text \<open>
  A rune obtained from a string is a code point between 0 and \<^verbatim>\<open>0x10FFFF\<close>, so runes
  are natural numbers here. Decoding works on the byte values of the string.
\<close>

type_synonym rune = nat

definition RuneError :: rune where
  "RuneError = 0xFFFD"

definition contByte :: "nat \<Rightarrow> bool" where
  "contByte b \<longleftrightarrow> 0x80 \<le> b \<and> b \<le> 0xBF"

text \<open>The range accepted for the second byte, by first byte (\<^verbatim>\<open>acceptRanges\<close>).\<close>

definition acceptLo :: "nat \<Rightarrow> nat" where
  "acceptLo s0 = (if s0 = 0xE0 then 0xA0 else if s0 = 0xF0 then 0x90 else 0x80)"

definition acceptHi :: "nat \<Rightarrow> nat" where
  "acceptHi s0 = (if s0 = 0xED then 0x9F else if s0 = 0xF4 then 0x8F else 0xBF)"

text \<open>
  \<^verbatim>\<open>utf8.DecodeRuneInString\<close>: the first code point of the string and its width in
  bytes; \<open>(RuneError, 0)\<close> for the empty string and \<open>(RuneError, 1)\<close> for an
  encoding that is invalid, too short, overlong, a surrogate or out of range.
\<close>

fun decodeBytes :: "nat list \<Rightarrow> rune \<times> nat" where
  "decodeBytes [] = (RuneError, 0)"
| "decodeBytes (s0 # rest) =
     (if s0 < 0x80 then (s0, 1)
      else if s0 < 0xC2 \<or> 0xF4 < s0 then (RuneError, 1)
      else
        (case rest of
           [] \<Rightarrow> (RuneError, 1)
         | s1 # rest1 \<Rightarrow>
             if s1 < acceptLo s0 \<or> acceptHi s0 < s1 then (RuneError, 1)
             else if s0 < 0xE0 then ((s0 - 0xC0) * 64 + (s1 - 0x80), 2)
             else
               (case rest1 of
                  [] \<Rightarrow> (RuneError, 1)
                | s2 # rest2 \<Rightarrow>
                    if \<not> contByte s2 then (RuneError, 1)
                    else if s0 < 0xF0
                    then ((s0 - 0xE0) * 4096 + (s1 - 0x80) * 64 + (s2 - 0x80), 3)
                    else
                      (case rest2 of
                         [] \<Rightarrow> (RuneError, 1)
                       | s3 # _ \<Rightarrow>
                           if \<not> contByte s3 then (RuneError, 1)
                           else ((s0 - 0xF0) * 262144 + (s1 - 0x80) * 4096
                                 + (s2 - 0x80) * 64 + (s3 - 0x80), 4)))))"

definition DecodeRuneInString :: "string \<Rightarrow> rune \<times> nat" where
  "DecodeRuneInString s = decodeBytes (map of_char s)"

text \<open>
  \<^verbatim>\<open>[]rune(s)\<close>: the code points of \<open>s\<close> in order; every byte that does not start
  a valid encoding gives \<open>RuneError\<close> and the decoding goes on one byte later.
\<close>

fun stringToRunes :: "string \<Rightarrow> rune list" where
  "stringToRunes [] = []"
| "stringToRunes (b # rest) =
     (case DecodeRuneInString (b # rest) of
        (r, sz) \<Rightarrow> r # stringToRunes (drop (sz - 1) rest))"

text \<open>
  \<^verbatim>\<open>utf8.EncodeRune\<close>: the bytes of the UTF-8 encoding of \<open>r\<close>, and those of
  \<^verbatim>\<open>U+FFFD\<close> for a surrogate or a value beyond \<^verbatim>\<open>0x10FFFF\<close>.
\<close>

definition EncodeRune :: "rune \<Rightarrow> nat list" where
  "EncodeRune r =
     (if r < 0x80 then [r]
      else if r < 0x800 then [0xC0 + r div 64, 0x80 + r mod 64]
      else if (0xD800 \<le> r \<and> r \<le> 0xDFFF) \<or> 0x10FFFF < r then [0xEF, 0xBF, 0xBD]
      else if r < 0x10000
      then [0xE0 + r div 4096, 0x80 + (r div 64) mod 64, 0x80 + r mod 64]
      else [0xF0 + r div 262144, 0x80 + (r div 4096) mod 64,
            0x80 + (r div 64) mod 64, 0x80 + r mod 64])"

text \<open>\<^verbatim>\<open>string(r)\<close>: the string of these bytes.\<close>

definition runeToString :: "rune \<Rightarrow> string" where
  "runeToString r = map char_of (EncodeRune r)"

subsection \<open>The JSON encoder (package \<^verbatim>\<open>encoding/json\<close>)\<close>

text \<open>Decimal digits of an integer (\<^verbatim>\<open>strconv.AppendInt\<close> in base 10).\<close>

fun decimal :: "nat \<Rightarrow> string" where
  "decimal n =
     (if n < 10 then [''0123456789'' ! n]
      else decimal (n div 10) @ [''0123456789'' ! (n mod 10)])"

declare decimal.simps [simp del]

definition FormatInt :: "int \<Rightarrow> string" where
  "FormatInt i = (if i < 0 then CHR ''-'' # decimal (nat (- i)) else decimal (nat i))"

definition hex :: "nat \<Rightarrow> char" where
  "hex n = ''0123456789abcdef'' ! n"

definition backslash :: char where
  "backslash = CHR 0x5C"

definition dquote :: char where
  "dquote = CHR 0x22"

text \<open>
  The tables \<^verbatim>\<open>safeSet\<close> and \<^verbatim>\<open>htmlSafeSet\<close>: the ASCII bytes written as they are.
  Both leave out the control characters, the double quote and the backslash; the second
  also leaves out \<^verbatim>\<open>&\<close>, \<^verbatim>\<open><\<close> and \<^verbatim>\<open>>\<close>.
\<close>

definition safeSet :: "nat \<Rightarrow> bool" where
  "safeSet b \<longleftrightarrow> 0x20 \<le> b \<and> b < 0x80 \<and> b \<noteq> 0x22 \<and> b \<noteq> 0x5C"

definition htmlSafeSet :: "nat \<Rightarrow> bool" where
  "htmlSafeSet b \<longleftrightarrow> safeSet b \<and> b \<noteq> 0x26 \<and> b \<noteq> 0x3C \<and> b \<noteq> 0x3E"

text \<open>
  The escape written for an ASCII byte that is not copied (the short forms for backspace
  and form feed are those of Go 1.22 and later).
\<close>

definition escapeByte :: "char \<Rightarrow> string" where
  "escapeByte b =
     (let n = (of_char b :: nat) in
      if n = 0x5C \<or> n = 0x22 then [backslash, b]
      else if n = 0x08 then [backslash, CHR ''b'']
      else if n = 0x0C then [backslash, CHR ''f'']
      else if n = 0x0A then [backslash, CHR ''n'']
      else if n = 0x0D then [backslash, CHR ''r'']
      else if n = 0x09 then [backslash, CHR ''t'']
      else [backslash, CHR ''u'', CHR ''0'', CHR ''0'', hex (n div 16), hex (n mod 16)])"

text \<open>
  The loop of \<^verbatim>\<open>appendString\<close>, with \<open>escapeHTML\<close> as the encoder has it set: ASCII
  bytes of the safe set are copied, the other ASCII bytes escaped; an invalid byte
  becomes the six characters of the escape for \<^verbatim>\<open>U+FFFD\<close>, the separators
  \<^verbatim>\<open>U+2028\<close> and \<^verbatim>\<open>U+2029\<close> are escaped, every other multi-byte character is
  copied.
\<close>

fun escapeString :: "bool \<Rightarrow> string \<Rightarrow> string" where
  "escapeString escapeHTML [] = []"
| "escapeString escapeHTML (b # rest) =
     (if (of_char b :: nat) < 0x80 then
        (if htmlSafeSet (of_char b) \<or> (\<not> escapeHTML \<and> safeSet (of_char b))
         then b # escapeString escapeHTML rest
         else escapeByte b @ escapeString escapeHTML rest)
      else
        (case DecodeRuneInString (take 4 (b # rest)) of
           (c, sz) \<Rightarrow>
             if c = RuneError \<and> sz = 1
             then [backslash] @ ''ufffd'' @ escapeString escapeHTML rest
             else if c = 0x2028 \<or> c = 0x2029
             then [backslash] @ ''u202'' @ [hex (c mod 16)]
                  @ escapeString escapeHTML (drop (sz - 1) rest)
             else take sz (b # rest) @ escapeString escapeHTML (drop (sz - 1) rest)))"

definition appendString :: "bool \<Rightarrow> string \<Rightarrow> string" where
  "appendString escapeHTML s = [dquote] @ escapeString escapeHTML s @ [dquote]"

fun commaSep :: "string list \<Rightarrow> string" where
  "commaSep [] = []"
| "commaSep [x] = x"
| "commaSep (x # y # ys) = x @ '','' @ commaSep (y # ys)"

text \<open>
  The JSON text of a value. The format of a \<^verbatim>\<open>float64\<close> is a parameter
  (\<^verbatim>\<open>strconv\<close>'s shortest representation is not modelled). The entries of a map are
  written in the order of their keys, the fields of a struct as they are declared.
\<close>

fun marshal :: "(float64 \<Rightarrow> string) \<Rightarrow> bool \<Rightarrow> json \<Rightarrow> string" where
  "marshal ff escapeHTML JNull = ''null''"
| "marshal ff escapeHTML (JBool b) = (if b then ''true'' else ''false'')"
| "marshal ff escapeHTML (JInt i) = FormatInt i"
| "marshal ff escapeHTML (JFloat f) = ff f"
| "marshal ff escapeHTML (JString s) = appendString escapeHTML s"
| "marshal ff escapeHTML (JArray vs) =
     ''['' @ commaSep (map (marshal ff escapeHTML) vs) @ '']''"
| "marshal ff escapeHTML (JStruct fs) =
     ''{'' @ commaSep (map (\<lambda>(k, v). appendString escapeHTML k @ '':'' @ marshal ff escapeHTML v) fs)
     @ ''}''"
| "marshal ff escapeHTML (JMap kvs) =
     ''{'' @ commaSep (map (\<lambda>(k, e). appendString escapeHTML k @ '':'' @ e)
                         (sort_key fst (map (\<lambda>(k, v). (k, marshal ff escapeHTML v)) kvs)))
     @ ''}''"

text \<open>\<^verbatim>\<open>Encoder.Encode\<close> writes the JSON text of the value and then a newline.\<close>

definition encodeBytes :: "(float64 \<Rightarrow> string) \<Rightarrow> bool \<Rightarrow> json \<Rightarrow> string" where
  "encodeBytes ff escapeHTML v = marshal ff escapeHTML v @ ''\<newline>''"

section \<open>Response Translator: \<^verbatim>\<open>convertToOpenAIResponse\<close>\<close>

text \<open>
  The two inner loops (lines 332-336 and 339-343) differ only in the content type they
  look for and the variable they assign: \<open>scanContent tag cs cur\<close> runs such a loop over
  \<open>cs\<close>, starting from the variable's current value \<open>cur\<close>.
\<close>

fun scanContent :: "string \<Rightarrow> CloudflareContentItem list \<Rightarrow> string \<Rightarrow> string" where
  "scanContent tag [] cur = cur"
| "scanContent tag (content # rest) cur =
     scanContent tag rest
       (if CloudflareContentItem.Type content = tag
        then CloudflareContentItem.Text content else cur)"

text \<open>
  The outer loop (lines 330-345) over \<^verbatim>\<open>cloudflareResp.Output\<close>; the state is the pair
  \<^verbatim>\<open>(reasoningText, assistantMessage)\<close>.
\<close>

fun scanOutput :: "CloudflareOutputItem list \<Rightarrow> string \<times> string \<Rightarrow> string \<times> string" where
  "scanOutput [] st = st"
| "scanOutput (output # rest) (reasoningText, assistantMessage) =
     (let reasoningText' =
            (if CloudflareOutputItem.Type output = ''reasoning''
             then scanContent ''reasoning_text'' (CloudflareOutputItem.Content output) reasoningText
             else reasoningText);
          assistantMessage' =
            (if CloudflareOutputItem.Type output = ''message''
                \<and> CloudflareOutputItem.Role output = ''assistant''
             then scanContent ''output_text'' (CloudflareOutputItem.Content output) assistantMessage
             else assistantMessage)
      in scanOutput rest (reasoningText', assistantMessage'))"

text \<open>Lines 347-351: \<^verbatim>\<open>fmt.Sprintf("<think>%s</think>\n", reasoningText)\<close>, guarded.\<close>

definition composeFinal :: "string \<Rightarrow> string \<Rightarrow> string" where
  "composeFinal reasoningText assistantMessage =
     (if reasoningText \<noteq> [] then ''<think>'' @ reasoningText @ ''</think>\<newline>'' else [])
     @ assistantMessage"

definition convertToOpenAIResponse :: "CloudflareResponse \<Rightarrow> OpenAIResponse" where
  "convertToOpenAIResponse cloudflareResp =
     (let (reasoningText, assistantMessage) =
            scanOutput (CloudflareResponse.Output cloudflareResp) ([], []);
          finalMessage = composeFinal reasoningText assistantMessage
      in \<lparr> OpenAIResponse.ID = CloudflareResponse.ID cloudflareResp,
           OpenAIResponse.Object = ''chat.completion'',
           OpenAIResponse.Created = CloudflareResponse.Created cloudflareResp,
           OpenAIResponse.Model = CloudflareResponse.Model cloudflareResp,
           OpenAIResponse.Choices =
             [\<lparr> Choice.Index = 0,
                Choice.Message =
                  \<lparr> Message.Role = ''assistant'', Message.Content = JString finalMessage \<rparr>,
                Choice.FinishReason = ''stop'' \<rparr>],
           OpenAIResponse.Usage =
             \<lparr> Usage.PromptTokens = CloudflareUsage.PromptTokens (CloudflareResponse.Usage cloudflareResp),
               Usage.CompletionTokens = CloudflareUsage.CompletionTokens (CloudflareResponse.Usage cloudflareResp),
               Usage.TotalTokens = CloudflareUsage.TotalTokens (CloudflareResponse.Usage cloudflareResp) \<rparr> \<rparr>)"

text \<open>
  What the specification calls the extracted texts, written without the loops: the text
  of the last content item carrying the wanted content type, among the content of the
  output items of the wanted kind, and the empty string when there is none.
\<close>

definition lastText :: "string \<Rightarrow> CloudflareContentItem list \<Rightarrow> string" where
  "lastText tag cs =
     (case rev (filter (\<lambda>c. CloudflareContentItem.Type c = tag) cs) of
        [] \<Rightarrow> []
      | c # _ \<Rightarrow> CloudflareContentItem.Text c)"

definition isReasoningItem :: "CloudflareOutputItem \<Rightarrow> bool" where
  "isReasoningItem output \<longleftrightarrow> CloudflareOutputItem.Type output = ''reasoning''"

definition isAssistantItem :: "CloudflareOutputItem \<Rightarrow> bool" where
  "isAssistantItem output \<longleftrightarrow>
     CloudflareOutputItem.Type output = ''message''
     \<and> CloudflareOutputItem.Role output = ''assistant''"

definition reasoningTextOf :: "CloudflareResponse \<Rightarrow> string" where
  "reasoningTextOf r =
     lastText ''reasoning_text''
       (concat (map CloudflareOutputItem.Content
                  (filter isReasoningItem (CloudflareResponse.Output r))))"

definition assistantTextOf :: "CloudflareResponse \<Rightarrow> string" where
  "assistantTextOf r =
     lastText ''output_text''
       (concat (map CloudflareOutputItem.Content
                  (filter isAssistantItem (CloudflareResponse.Output r))))"

text \<open>The content of the reply's first choice, when there is one and it is a string.\<close>

definition finalContent :: "OpenAIResponse \<Rightarrow> string option" where
  "finalContent resp =
     (case OpenAIResponse.Choices resp of
        [] \<Rightarrow> None
      | c # _ \<Rightarrow> (case Message.Content (Choice.Message c) of
                    JString s \<Rightarrow> Some s
                  | _ \<Rightarrow> None))"

section \<open>Request Translator: \<^verbatim>\<open>convertToCloudflareRequest\<close>\<close>

text \<open>
  The loop of lines 275-280 appends one map per message to \<^verbatim>\<open>cfMessages\<close>, which starts
  as the nil slice. The empty list stands for the nil slice in \<open>Input\<close>: the program never
  builds an empty slice that is not nil.
\<close>

fun appendMessages :: "Message list \<Rightarrow> (string \<times> json) list list \<Rightarrow> (string \<times> json) list list" where
  "appendMessages [] cfMessages = cfMessages"
| "appendMessages (msg # rest) cfMessages =
     appendMessages rest
       (cfMessages @ [[(''role'', JString (Message.Role msg)),
                       (''content'', Message.Content msg)]])"

text \<open>The global \<^verbatim>\<open>config\<close> is an argument of every function that reads it.\<close>

definition convertToCloudflareRequest :: "Config \<Rightarrow> OpenAIRequest \<Rightarrow> CloudflareRequest" where
  "convertToCloudflareRequest config openaiReq =
     (let cfMessages = appendMessages (OpenAIRequest.Messages openaiReq) [];
          cfReq0 = \<lparr> CloudflareRequest.Model = Config.Model config,
                     CloudflareRequest.Input = cfMessages,
                     CloudflareRequest.Temperature = None,
                     CloudflareRequest.TopP = None \<rparr>;
          cfReq1 = (if OpenAIRequest.Temperature openaiReq \<noteq> None
                    then cfReq0 \<lparr> CloudflareRequest.Temperature :=
                                    OpenAIRequest.Temperature openaiReq \<rparr>
                    else cfReq0);
          cfReq2 = (if OpenAIRequest.TopP openaiReq \<noteq> None
                    then cfReq1 \<lparr> CloudflareRequest.TopP := OpenAIRequest.TopP openaiReq \<rparr>
                    else cfReq1)
      in cfReq2)"

section \<open>What the encoder sees of the structs\<close>

text \<open>
  The JSON fields of \<^verbatim>\<open>CloudflareRequest\<close> by its struct tags (lines 57-62): the two
  pointer fields are \<^verbatim>\<open>omitempty\<close>, so a nil pointer gives no field. A nil slice under
  \<^verbatim>\<open>Input\<close> is written \<^verbatim>\<open>null\<close>.
\<close>

definition jsonOfCloudflareRequest :: "CloudflareRequest \<Rightarrow> json" where
  "jsonOfCloudflareRequest req =
     JStruct
       ([(''model'', JString (CloudflareRequest.Model req)),
         (''input'', if CloudflareRequest.Input req = [] then JNull
                     else JArray (map JMap (CloudflareRequest.Input req)))]
        @ (case CloudflareRequest.Temperature req of
             None \<Rightarrow> [] | Some t \<Rightarrow> [(''temperature'', JFloat t)])
        @ (case CloudflareRequest.TopP req of
             None \<Rightarrow> [] | Some p \<Rightarrow> [(''top_p'', JFloat p)]))"

text \<open>The JSON fields of \<^verbatim>\<open>OpenAIResponse\<close> and its parts (lines 31-55).\<close>

definition jsonOfMessage :: "Message \<Rightarrow> json" where
  "jsonOfMessage m =
     JStruct [(''role'', JString (Message.Role m)), (''content'', Message.Content m)]"

definition jsonOfChoice :: "Choice \<Rightarrow> json" where
  "jsonOfChoice c =
     JStruct [(''index'', JInt (Choice.Index c)),
              (''message'', jsonOfMessage (Choice.Message c)),
              (''finish_reason'', JString (Choice.FinishReason c))]"

definition jsonOfUsage :: "Usage \<Rightarrow> json" where
  "jsonOfUsage u =
     JStruct [(''prompt_tokens'', JInt (Usage.PromptTokens u)),
              (''completion_tokens'', JInt (Usage.CompletionTokens u)),
              (''total_tokens'', JInt (Usage.TotalTokens u))]"

definition jsonOfOpenAIResponse :: "OpenAIResponse \<Rightarrow> json" where
  "jsonOfOpenAIResponse resp =
     JStruct [(''id'', JString (OpenAIResponse.ID resp)),
              (''object'', JString (OpenAIResponse.Object resp)),
              (''created'', JInt (OpenAIResponse.Created resp)),
              (''model'', JString (OpenAIResponse.Model resp)),
              (''choices'', JArray (map jsonOfChoice (OpenAIResponse.Choices resp))),
              (''usage'', jsonOfUsage (OpenAIResponse.Usage resp))]"

section \<open>Requests, effects and the environment\<close>

text \<open>
  What a handler reads of \<^verbatim>\<open>*http.Request\<close>: the method, the headers (canonical name
  to values) and the bytes \<^verbatim>\<open>io.ReadAll\<close> gets from the body.
\<close>

record Request =
  Method :: string
  Header :: "(string \<times> string list) list"
  Body :: string

text \<open>\<^verbatim>\<open>Header.Get\<close>: the first value under the name, the empty string without one.\<close>

definition HeaderGet :: "(string \<times> string list) list \<Rightarrow> string \<Rightarrow> string" where
  "HeaderGet h key =
     (case map_of h key of None \<Rightarrow> [] | Some [] \<Rightarrow> [] | Some (v # _) \<Rightarrow> v)"

text \<open>The request \<^verbatim>\<open>callCloudflareAPI\<close> builds (lines 299-304).\<close>

record BackendCall =
  Method :: string
  URL :: string
  Header :: "(string \<times> string) list"
  Body :: string

text \<open>A Go \<^verbatim>\<open>error\<close>, as far as the program looks at one: its message.\<close>

datatype goerror = GoError (message: string)

datatype panic = IndexOutOfRange | InterfaceConversion | NilPointerDereference

datatype logline = UserRequestJSON string | CloudflareRawResponse string

text \<open>
  What a handler does to the outside, in the order it does it: log lines, the call to
  the backend, and the calls on the \<^verbatim>\<open>ResponseWriter\<close>. \<open>Encode h v\<close> is
  \<^verbatim>\<open>Encoder.Encode\<close> on \<open>v\<close> with \<^verbatim>\<open>escapeHTML\<close> set to \<open>h\<close>; \<open>Error msg code\<close> is
  \<^verbatim>\<open>http.Error(w, msg, code)\<close>. The writer is the one of \<^verbatim>\<open>net/http\<close>'s server, which
  is a \<^verbatim>\<open>Flusher\<close>; the results of the writes are dropped by the program and are not
  kept here.
\<close>

datatype effect =
    Log logline
  | Call BackendCall
  | SetHeader string string
  | Error string nat
  | Write string
  | Encode bool json
  | Flush

text \<open>
  The outside world: the transport (\<^verbatim>\<open>client.Do\<close> followed by \<^verbatim>\<open>io.ReadAll\<close>, giving a
  transport error or the status code and the body), whether \<^verbatim>\<open>http.NewRequestWithContext\<close>
  accepts a URL, the two uses of \<^verbatim>\<open>json.Unmarshal\<close>, the clock (\<open>Now env k\<close> is what the
  \<open>k\<close>-th reading of \<^verbatim>\<open>time.Now().Unix()\<close> in a handler returns) and the format of
  floating-point numbers.
\<close>

record Env =
  Do :: "BackendCall \<Rightarrow> goerror + nat \<times> string"
  URLParses :: "string \<Rightarrow> bool"
  UnmarshalRequest :: "string \<Rightarrow> goerror + OpenAIRequest"
  UnmarshalResponse :: "string \<Rightarrow> goerror + CloudflareResponse"
  Now :: "nat \<Rightarrow> int"
  FormatFloat :: "float64 \<Rightarrow> string"

text \<open>The status line of the reply: \<^verbatim>\<open>http.Error\<close> sets it, the first write makes it 200.\<close>

fun replyStatus :: "effect list \<Rightarrow> nat" where
  "replyStatus [] = 200"
| "replyStatus (Error msg code # _) = code"
| "replyStatus (Write _ # _) = 200"
| "replyStatus (Encode _ _ # _) = 200"
| "replyStatus (Flush # _) = 200"
| "replyStatus (_ # rest) = replyStatus rest"

text \<open>The bytes of the reply's body; \<^verbatim>\<open>http.Error\<close> writes its message and a newline.\<close>

fun wireBytes :: "(float64 \<Rightarrow> string) \<Rightarrow> effect \<Rightarrow> string" where
  "wireBytes ff (Write s) = s"
| "wireBytes ff (Encode escapeHTML v) = encodeBytes ff escapeHTML v"
| "wireBytes ff (Error msg code) = msg @ ''\<newline>''"
| "wireBytes ff _ = []"

definition responseBody :: "(float64 \<Rightarrow> string) \<Rightarrow> effect list \<Rightarrow> string" where
  "responseBody ff effects = concat (map (wireBytes ff) effects)"

fun backendCalls :: "effect list \<Rightarrow> BackendCall list" where
  "backendCalls [] = []"
| "backendCalls (Call c # rest) = c # backendCalls rest"
| "backendCalls (_ # rest) = backendCalls rest"

section \<open>Authorization: \<^verbatim>\<open>authorizeClient\<close>\<close>

definition authorizeClient :: "Config \<Rightarrow> Request \<Rightarrow> bool" where
  "authorizeClient config r =
     (if Config.ClientKey config = [] then True
      else HeaderGet (Request.Header r) ''Authorization'' = ''Bearer '' @ Config.ClientKey config)"

section \<open>Backend Client: \<^verbatim>\<open>callCloudflareAPI\<close>\<close>

definition backendURL :: "Config \<Rightarrow> string" where
  "backendURL config =
     ''https://api.cloudflare.com/client/v4/accounts/'' @ Config.AccountID config
     @ ''/ai/v1/responses''"

text \<open>
  The result is the triple the Go function returns: the pointer (nil is \<open>None\<close>), the
  raw body and the error (nil is \<open>None\<close>). The error of \<^verbatim>\<open>NewRequestWithContext\<close> is
  dropped at line 302, so a URL it refuses leaves \<^verbatim>\<open>httpReq\<close> nil and line 303 panics.
\<close>

type_synonym apiResult = "CloudflareResponse option \<times> string \<times> goerror option"

text \<open>
  Lines 299-304: the request, with the serialized \<^verbatim>\<open>CloudflareRequest\<close> as its body.
  \<^verbatim>\<open>json.Marshal\<close> uses the encoder with HTML escaping on; it fails on no value that
  \<^verbatim>\<open>json.Unmarshal\<close> has produced, so its error, which line 299 drops, is not a case here.
\<close>

definition newRequest :: "Env \<Rightarrow> Config \<Rightarrow> CloudflareRequest \<Rightarrow> BackendCall" where
  "newRequest env config req =
     (let reqBody = marshal (FormatFloat env) True (jsonOfCloudflareRequest req);
          url = backendURL config
      in \<lparr> BackendCall.Method = ''POST'',
           BackendCall.URL = url,
           BackendCall.Header =
             [(''Authorization'', ''Bearer '' @ Config.AuthToken config),
              (''Content-Type'', ''application/json'')],
           BackendCall.Body = reqBody \<rparr>)"

definition callCloudflareAPI ::
  "Env \<Rightarrow> Config \<Rightarrow> CloudflareRequest \<Rightarrow> effect list \<times> (panic + apiResult)" where
  "callCloudflareAPI env config req =
     (if \<not> URLParses env (backendURL config) then ([], Inl NilPointerDereference)
      else
        let httpReq = newRequest env config req
        in (case Do env httpReq of
              Inl err \<Rightarrow> ([Call httpReq], Inr (None, [], Some err))
            | Inr (statusCode, body) \<Rightarrow>
                if statusCode \<noteq> 200
                then ([Call httpReq],
                      Inr (None, body, Some (GoError (''API request failed: '' @ body))))
                else
                  (case UnmarshalResponse env body of
                     Inl err \<Rightarrow> ([Call httpReq], Inr (None, body, Some err))
                   | Inr cloudflareResp \<Rightarrow>
                       ([Call httpReq], Inr (Some cloudflareResp, body, None)))))"

section \<open>Streaming Emitter: the \<^verbatim>\<open>Stream\<close> branch of \<^verbatim>\<open>handleChatCompletions\<close>\<close>

text \<open>
  The three map literals of lines 164-178, 188-202 and 212-229; \<open>now\<close> is the reading
  of the clock taken for the event.
\<close>

definition startEvent :: "OpenAIResponse \<Rightarrow> int \<Rightarrow> json" where
  "startEvent openaiResp now =
     JMap [(''id'', JString (OpenAIResponse.ID openaiResp)),
           (''object'', JString ''chat.completion.chunk''),
           (''created'', JInt now),
           (''model'', JString (OpenAIResponse.Model openaiResp)),
           (''choices'',
              JArray [JMap [(''delta'', JMap [(''role'', JString ''assistant'')]),
                            (''index'', JInt 0),
                            (''finish_reason'', JNull)]])]"

definition contentEvent :: "OpenAIResponse \<Rightarrow> int \<Rightarrow> rune \<Rightarrow> json" where
  "contentEvent openaiResp now r =
     JMap [(''id'', JString (OpenAIResponse.ID openaiResp)),
           (''object'', JString ''chat.completion.chunk''),
           (''created'', JInt now),
           (''model'', JString (OpenAIResponse.Model openaiResp)),
           (''choices'',
              JArray [JMap [(''delta'', JMap [(''content'', JString (runeToString r))]),
                            (''index'', JInt 0),
                            (''finish_reason'', JNull)]])]"

definition endEvent :: "OpenAIResponse \<Rightarrow> int \<Rightarrow> json" where
  "endEvent openaiResp now =
     JMap [(''id'', JString (OpenAIResponse.ID openaiResp)),
           (''object'', JString ''chat.completion.chunk''),
           (''created'', JInt now),
           (''model'', JString (OpenAIResponse.Model openaiResp)),
           (''choices'',
              JArray [JMap [(''delta'', JMap []),
                            (''index'', JInt 0),
                            (''finish_reason'', JString ''stop'')]]),
           (''usage'',
              JMap [(''prompt_tokens'', JInt (Usage.PromptTokens (OpenAIResponse.Usage openaiResp))),
                    (''completion_tokens'',
                       JInt (Usage.CompletionTokens (OpenAIResponse.Usage openaiResp))),
                    (''total_tokens'', JInt (Usage.TotalTokens (OpenAIResponse.Usage openaiResp)))])]"

text \<open>
  The loop of lines 187-209; \<open>k\<close> counts the readings of the clock made so far. Each
  round writes the prefix, encodes the event with \<^verbatim>\<open>escapeHTML\<close> off, writes a newline
  and flushes.
\<close>

fun emitRunes :: "Env \<Rightarrow> OpenAIResponse \<Rightarrow> nat \<Rightarrow> rune list \<Rightarrow> effect list" where
  "emitRunes env openaiResp k [] = []"
| "emitRunes env openaiResp k (r # runes) =
     [Write ''data: '',
      Encode False (contentEvent openaiResp (Now env k) r),
      Write ''\<newline>'',
      Flush]
     @ emitRunes env openaiResp (Suc k) runes"

text \<open>
  Lines 155-238. The index \<^verbatim>\<open>Choices[0]\<close> panics on an empty slice and the assertion
  \<^verbatim>\<open>.(string)\<close> on a content that is not a string; both come after the three headers
  are set.
\<close>

definition streamResponse :: "Env \<Rightarrow> OpenAIResponse \<Rightarrow> effect list \<times> panic option" where
  "streamResponse env openaiResp =
     (let headers = [SetHeader ''Content-Type'' ''text/event-stream'',
                     SetHeader ''Cache-Control'' ''no-cache'',
                     SetHeader ''Connection'' ''keep-alive'']
      in case OpenAIResponse.Choices openaiResp of
           [] \<Rightarrow> (headers, Some IndexOutOfRange)
         | choice # _ \<Rightarrow>
             (case Message.Content (Choice.Message choice) of
                JString fullContent \<Rightarrow>
                  let runes = stringToRunes fullContent
                  in (headers
                      @ [Write ''data: '',
                         Encode False (startEvent openaiResp (Now env 0)),
                         Write ''\<newline>'',
                         Flush]
                      @ emitRunes env openaiResp 1 runes
                      @ [Write ''data: '',
                         Encode False (endEvent openaiResp (Now env (Suc (length runes)))),
                         Write ''\<newline>\<newline>'',
                         Write ''data: [DONE]\<newline>\<newline>'',
                         Flush],
                      None)
              | _ \<Rightarrow> (headers, Some InterfaceConversion)))"

section \<open>Request Handlers\<close>

definition handleChatCompletions :: "Env \<Rightarrow> Config \<Rightarrow> Request \<Rightarrow> effect list \<times> panic option" where
  "handleChatCompletions env config r =
     (if \<not> authorizeClient config r then ([Error ''Unauthorized'' 401], None)
      else if Request.Method r \<noteq> ''POST'' then ([Error ''Method not allowed'' 405], None)
      else
        let body = Request.Body r;
            logged = [Log (UserRequestJSON body)]
        in (case UnmarshalRequest env body of
              Inl err \<Rightarrow> (logged @ [Error ''Invalid JSON'' 400], None)
            | Inr openaiReq \<Rightarrow>
                let cfReq = convertToCloudflareRequest config openaiReq
                in (case callCloudflareAPI env config cfReq of
                      (called, Inl p) \<Rightarrow> (logged @ called, Some p)
                    | (called, Inr (cfResp, rawCFJSON, Some err)) \<Rightarrow>
                        (logged @ called
                         @ [Error (''Cloudflare API error: '' @ message err) 500], None)
                    | (called, Inr (cfResp, rawCFJSON, None)) \<Rightarrow>
                        let logged' = logged @ called @ [Log (CloudflareRawResponse rawCFJSON)]
                        in (case cfResp of
                              None \<Rightarrow> (logged', Some NilPointerDereference)
                            | Some cloudflareResp \<Rightarrow>
                                let openaiResp = convertToOpenAIResponse cloudflareResp
                                in if OpenAIRequest.Stream openaiReq
                                   then (case streamResponse env openaiResp of
                                           (written, p) \<Rightarrow> (logged' @ written, p))
                                   else (logged'
                                         @ [SetHeader ''Content-Type'' ''application/json'',
                                            Encode False (jsonOfOpenAIResponse openaiResp)],
                                         None)))))"

definition handleModels :: "Env \<Rightarrow> Config \<Rightarrow> Request \<Rightarrow> effect list \<times> panic option" where
  "handleModels env config r =
     (if \<not> authorizeClient config r then ([Error ''Unauthorized'' 401], None)
      else if Request.Method r \<noteq> ''GET'' then ([Error ''Method not allowed'' 405], None)
      else
        let modelsResp =
              JMap [(''object'', JString ''list''),
                    (''data'',
                       JArray [JMap [(''id'', JString (Config.Model config)),
                                     (''object'', JString ''model''),
                                     (''created'', JInt (Now env 0)),
                                     (''owned_by'', JString ''openai'')]])]
        in ([SetHeader ''Content-Type'' ''application/json'', Encode True modelsResp], None))"

section \<open>Concrete inputs\<close>

text \<open>
  A reasoning item carrying the text \<open>t\<close> (no content item at all when \<open>t\<close> is empty),
  an assistant message item carrying \<open>t\<close>, and a backend result around a list of items.
\<close>

definition reasoningItem :: "string \<Rightarrow> CloudflareOutputItem" where
  "reasoningItem t =
     \<lparr> CloudflareOutputItem.ID = ''rs_1'',
       CloudflareOutputItem.Content =
         (if t = [] then []
          else [\<lparr> CloudflareContentItem.Text = t, CloudflareContentItem.Type = ''reasoning_text'' \<rparr>]),
       CloudflareOutputItem.Role = [],
       CloudflareOutputItem.Type = ''reasoning'',
       CloudflareOutputItem.Status = [] \<rparr>"

definition assistantItem :: "string \<Rightarrow> CloudflareOutputItem" where
  "assistantItem t =
     \<lparr> CloudflareOutputItem.ID = ''msg_1'',
       CloudflareOutputItem.Content =
         [\<lparr> CloudflareContentItem.Text = t, CloudflareContentItem.Type = ''output_text'' \<rparr>],
       CloudflareOutputItem.Role = ''assistant'',
       CloudflareOutputItem.Type = ''message'',
       CloudflareOutputItem.Status = ''completed'' \<rparr>"

definition backendResult :: "CloudflareOutputItem list \<Rightarrow> CloudflareResponse" where
  "backendResult items =
     \<lparr> CloudflareResponse.ID = ''resp_1'',
       CloudflareResponse.Created = 1700000000,
       CloudflareResponse.Model = ''@cf/openai/gpt-oss-120b'',
       CloudflareResponse.Object = ''response'',
       CloudflareResponse.Output = items,
       CloudflareResponse.Usage =
         \<lparr> CloudflareUsage.PromptTokens = 3,
           CloudflareUsage.CompletionTokens = 5,
           CloudflareUsage.TotalTokens = 8 \<rparr> \<rparr>"

text \<open>
  A configuration with the client key \<^verbatim>\<open>secret\<close> and one without a client key, a
  streaming request that sets a temperature and no \<^verbatim>\<open>top_p\<close>, and an environment whose
  backend answers 200 with a result holding a reasoning item and an assistant message.
\<close>

definition exampleConfig :: Config where
  "exampleConfig =
     \<lparr> Config.AccountID = ''acct'',
       Config.Model = ''@cf/openai/gpt-oss-120b'',
       Config.AuthToken = ''token'',
       Config.Port = ''10000'',
       Config.ClientKey = ''secret'' \<rparr>"

definition openConfig :: Config where
  "openConfig = exampleConfig \<lparr> Config.ClientKey := [] \<rparr>"

definition exampleRequest :: OpenAIRequest where
  "exampleRequest =
     \<lparr> OpenAIRequest.Model = ''gpt-4o'',
       OpenAIRequest.Messages =
         [\<lparr> Message.Role = ''user'', Message.Content = JString ''hi'' \<rparr>],
       OpenAIRequest.Stream = True,
       OpenAIRequest.Temperature = Some (Float64 0x3FE0000000000000),
       OpenAIRequest.TopP = None \<rparr>"

definition exampleEnv :: Env where
  "exampleEnv =
     \<lparr> Env.Do = (\<lambda>call. Inr (200, ''{}'')),
       Env.URLParses = (\<lambda>url. True),
       Env.UnmarshalRequest = (\<lambda>body. Inr exampleRequest),
       Env.UnmarshalResponse =
         (\<lambda>body. Inr (backendResult [reasoningItem ''plan'', assistantItem ''ok''])),
       Env.Now = (\<lambda>k. 1700000000 + int k),
       Env.FormatFloat = (\<lambda>f. ''0.5'') \<rparr>"



text \<open>Requests: by method, without an \<^verbatim>\<open>Authorization\<close> header or with the header given.\<close>

definition requestWithout :: "string \<Rightarrow> Request" where
  "requestWithout method =
     \<lparr> Request.Method = method, Request.Header = [], Request.Body = ''{}'' \<rparr>"

definition requestWith :: "string \<Rightarrow> string \<Rightarrow> Request" where
  "requestWith method authorization =
     \<lparr> Request.Method = method,
       Request.Header = [(''Authorization'', [authorization])],
       Request.Body = ''{}'' \<rparr>"

text \<open>
  Four characters of one, two, three and four bytes: \<^verbatim>\<open>U+4F60\<close>, \<^verbatim>\<open>a\<close>,
  \<^verbatim>\<open>U+1F600\<close> and \<^verbatim>\<open>U+00E9\<close>.
\<close>

definition exampleCharacters :: "string list" where
  "exampleCharacters =
     [[CHR 0xE4, CHR 0xBD, CHR 0xA0], ''a'', [CHR 0xF0, CHR 0x9F, CHR 0x98, CHR 0x80],
      [CHR 0xC3, CHR 0xA9]]"

section \<open>Observations\<close>

text \<open>The fields of a struct as the encoder is given them.\<close>

definition structFields :: "json \<Rightarrow> (string \<times> json) list" where
  "structFields v = (case v of JStruct fs \<Rightarrow> fs | _ \<Rightarrow> [])"

text \<open>
  Well-formed UTF-8, after the table of well-formed byte sequences of the Unicode
  standard: the bytes of one code point, by length. A valid UTF-8 string is a
  concatenation of such characters.
\<close>

fun wellFormedBytes :: "nat list \<Rightarrow> bool" where
  "wellFormedBytes [b0] = (b0 < 0x80)"
| "wellFormedBytes [b0, b1] = (0xC2 \<le> b0 \<and> b0 \<le> 0xDF \<and> contByte b1)"
| "wellFormedBytes [b0, b1, b2] =
     (((b0 = 0xE0 \<and> 0xA0 \<le> b1 \<and> b1 \<le> 0xBF)
       \<or> (0xE1 \<le> b0 \<and> b0 \<le> 0xEC \<and> contByte b1)
       \<or> (b0 = 0xED \<and> 0x80 \<le> b1 \<and> b1 \<le> 0x9F)
       \<or> (0xEE \<le> b0 \<and> b0 \<le> 0xEF \<and> contByte b1))
      \<and> contByte b2)"
| "wellFormedBytes [b0, b1, b2, b3] =
     (((b0 = 0xF0 \<and> 0x90 \<le> b1 \<and> b1 \<le> 0xBF)
       \<or> (0xF1 \<le> b0 \<and> b0 \<le> 0xF3 \<and> contByte b1)
       \<or> (b0 = 0xF4 \<and> 0x80 \<le> b1 \<and> b1 \<le> 0x8F))
      \<and> contByte b2 \<and> contByte b3)"
| "wellFormedBytes _ = False"

definition utf8Char :: "string \<Rightarrow> bool" where
  "utf8Char c \<longleftrightarrow> wellFormedBytes (map of_char c)"

text \<open>
  Reading an event: an entry of a map, the first element of \<^verbatim>\<open>choices\<close>, its
  \<^verbatim>\<open>delta\<close> and \<^verbatim>\<open>finish_reason\<close>, an entry of \<^verbatim>\<open>usage\<close>, and the string of a delta that
  has the one entry \<^verbatim>\<open>content\<close>.
\<close>

fun mapGet :: "string \<Rightarrow> json \<Rightarrow> json option" where
  "mapGet k (JMap kvs) = map_of kvs k"
| "mapGet k _ = None"

definition firstChoice :: "json \<Rightarrow> json option" where
  "firstChoice ev =
     (case mapGet ''choices'' ev of Some (JArray (c # _)) \<Rightarrow> Some c | _ \<Rightarrow> None)"

definition deltaOf :: "json \<Rightarrow> json option" where
  "deltaOf ev = (case firstChoice ev of Some c \<Rightarrow> mapGet ''delta'' c | None \<Rightarrow> None)"

definition finishReasonOf :: "json \<Rightarrow> json option" where
  "finishReasonOf ev =
     (case firstChoice ev of Some c \<Rightarrow> mapGet ''finish_reason'' c | None \<Rightarrow> None)"

definition usageOf :: "json \<Rightarrow> string \<Rightarrow> json option" where
  "usageOf ev k = (case mapGet ''usage'' ev of Some u \<Rightarrow> mapGet k u | None \<Rightarrow> None)"

definition deltaContent :: "json \<Rightarrow> string option" where
  "deltaContent ev =
     (case deltaOf ev of
        Some (JMap [(k, JString s)]) \<Rightarrow> if k = ''content'' then Some s else None
      | _ \<Rightarrow> None)"

text \<open>The content deltas of a reply, in the order of emission.\<close>

fun contentDeltas :: "effect list \<Rightarrow> string list" where
  "contentDeltas [] = []"
| "contentDeltas (Encode h ev # rest) =
     (case deltaContent ev of
        Some s \<Rightarrow> s # contentDeltas rest
      | None \<Rightarrow> contentDeltas rest)"
| "contentDeltas (_ # rest) = contentDeltas rest"

text \<open>
  The frames of a reply: every encoded value is an event, the literal write of
  \<^verbatim>\<open>data: [DONE]\<close> and two newlines is the sentinel.
\<close>

datatype frame = Event json | Done

fun frames :: "effect list \<Rightarrow> frame list" where
  "frames [] = []"
| "frames (Encode h ev # rest) = Event ev # frames rest"
| "frames (Write s # rest) =
     (if s = ''data: [DONE]\<newline>\<newline>'' then Done # frames rest else frames rest)"
| "frames (_ # rest) = frames rest"

fun events :: "frame list \<Rightarrow> json list" where
  "events [] = []"
| "events (Event ev # rest) = ev # events rest"
| "events (Done # rest) = events rest"

text \<open>
  The three kinds of event in the words of the specification: a start frame has a delta
  with only the role \<^verbatim>\<open>assistant\<close> and a null finish reason; a content frame has a delta
  with only a content string and a null finish reason; an end frame has an empty delta,
  the finish reason \<^verbatim>\<open>stop\<close> and the three token counts of the reply.
\<close>

definition isStartFrame :: "json \<Rightarrow> bool" where
  "isStartFrame ev \<longleftrightarrow>
     deltaOf ev = Some (JMap [(''role'', JString ''assistant'')])
     \<and> finishReasonOf ev = Some JNull"

definition isContentFrame :: "json \<Rightarrow> bool" where
  "isContentFrame ev \<longleftrightarrow> deltaContent ev \<noteq> None \<and> finishReasonOf ev = Some JNull"

definition isEndFrame :: "OpenAIResponse \<Rightarrow> json \<Rightarrow> bool" where
  "isEndFrame resp ev \<longleftrightarrow>
     deltaOf ev = Some (JMap [])
     \<and> finishReasonOf ev = Some (JString ''stop'')
     \<and> usageOf ev ''prompt_tokens''
         = Some (JInt (Usage.PromptTokens (OpenAIResponse.Usage resp)))
     \<and> usageOf ev ''completion_tokens''
         = Some (JInt (Usage.CompletionTokens (OpenAIResponse.Usage resp)))
     \<and> usageOf ev ''total_tokens''
         = Some (JInt (Usage.TotalTokens (OpenAIResponse.Usage resp)))"

datatype phase = StartFrame | ContentFrame | EndFrame | Sentinel | Unknown

fun classify :: "OpenAIResponse \<Rightarrow> frame \<Rightarrow> phase" where
  "classify resp Done = Sentinel"
| "classify resp (Event ev) =
     (if isStartFrame ev then StartFrame
      else if isContentFrame ev then ContentFrame
      else if isEndFrame resp ev then EndFrame
      else Unknown)"

text \<open>The \<^verbatim>\<open>escapeHTML\<close> settings of the encoders used, in order.\<close>

fun escapeFlags :: "effect list \<Rightarrow> bool list" where
  "escapeFlags [] = []"
| "escapeFlags (Encode h ev # rest) = h # escapeFlags rest"
| "escapeFlags (_ # rest) = escapeFlags rest"

text \<open>
  The framing in the words of the specification: every event as \<^verbatim>\<open>data: \<close>, its JSON
  text and what follows it, and \<^verbatim>\<open>data: [DONE]\<close> with two newlines at the end. What
  follows the JSON text is \<open>nl\<close>: one newline, or two when the newline the encoder adds
  is counted as part of the serialized event.
\<close>

definition specFraming :: "(float64 \<Rightarrow> string) \<Rightarrow> string \<Rightarrow> json list \<Rightarrow> string" where
  "specFraming ff nl evs =
     concat (map (\<lambda>ev. ''data: '' @ marshal ff False ev @ nl) evs)
     @ ''data: [DONE]\<newline>\<newline>''"

section \<open>Properties of the Response Translator\<close>

lemma scanContent_lastText:
  "scanContent tag cs cur =
     (case rev (filter (\<lambda>c. CloudflareContentItem.Type c = tag) cs) of
        [] \<Rightarrow> cur
      | c # _ \<Rightarrow> CloudflareContentItem.Text c)"
  by (induction cs arbitrary: cur) (auto split: list.splits)

lemma scanContent_append:
  "scanContent tag (cs @ ds) cur = scanContent tag ds (scanContent tag cs cur)"
  by (induction cs arbitrary: cur) simp_all

lemma scanOutput_Cons:
  "scanOutput (out # rest) (r0, a0) =
     scanOutput rest
       (if isReasoningItem out
        then scanContent ''reasoning_text'' (CloudflareOutputItem.Content out) r0 else r0,
        if isAssistantItem out
        then scanContent ''output_text'' (CloudflareOutputItem.Content out) a0 else a0)"
  by (simp add: Let_def isReasoningItem_def isAssistantItem_def)

lemma scanOutput_concat:
  "scanOutput outs (r0, a0) =
     (scanContent ''reasoning_text''
        (concat (map CloudflareOutputItem.Content (filter isReasoningItem outs))) r0,
      scanContent ''output_text''
        (concat (map CloudflareOutputItem.Content (filter isAssistantItem outs))) a0)"
proof (induction outs arbitrary: r0 a0)
  case Nil
  show ?case by simp
next
  case (Cons out outs)
  show ?case
    by (simp only: scanOutput_Cons Cons.IH) (simp add: scanContent_append)
qed

lemma scanOutput_texts:
  "scanOutput (CloudflareResponse.Output r) ([], []) = (reasoningTextOf r, assistantTextOf r)"
  by (simp add: scanOutput_concat scanContent_lastText reasoningTextOf_def assistantTextOf_def
        lastText_def)

lemma convert_Choices:
  "OpenAIResponse.Choices (convertToOpenAIResponse r) =
     [\<lparr> Choice.Index = 0,
        Choice.Message = \<lparr> Message.Role = ''assistant'',
                           Message.Content = JString (composeFinal (reasoningTextOf r) (assistantTextOf r)) \<rparr>,
        Choice.FinishReason = ''stop'' \<rparr>]"
  by (simp add: convertToOpenAIResponse_def scanOutput_texts)

lemma finalContent_convert:
  "finalContent (convertToOpenAIResponse r) = Some (composeFinal (reasoningTextOf r) (assistantTextOf r))"
  by (simp add: finalContent_def convert_Choices)

lemma assistantTextOf_none:
  "\<not> list_ex isAssistantItem (CloudflareResponse.Output r) \<Longrightarrow> assistantTextOf r = []"
  by (simp add: assistantTextOf_def lastText_def list_ex_iff filter_False)

lemma example_texts:
  "reasoningTextOf (backendResult [reasoningItem t, assistantItem a]) = t"
  "assistantTextOf (backendResult [reasoningItem t, assistantItem a]) = a"
  "reasoningTextOf (backendResult [reasoningItem t]) = t"
  "assistantTextOf (backendResult [reasoningItem t]) = []"
  "reasoningTextOf (backendResult [assistantItem a]) = []"
  "assistantTextOf (backendResult [assistantItem a]) = a"
  by (simp_all add: reasoningTextOf_def assistantTextOf_def lastText_def backendResult_def
        reasoningItem_def assistantItem_def isReasoningItem_def isAssistantItem_def)

text \<open>
  Claim C1. The content of the reply's only choice is composed from the two extracted
  texts: when the reasoning text is not empty, it is \<^verbatim>\<open><think>\<close>, the reasoning text,
  \<^verbatim>\<open></think>\<close>, a newline and the assistant text, each once and in this order; when the
  reasoning text is empty, it is the assistant text alone. The assistant text is empty
  when the result has no assistant message item. The reasoning text is the text of the
  last \<^verbatim>\<open>reasoning_text\<close> content of the reasoning items, so the delimited block depends on
  that text being non-empty, not on a reasoning item being present.
\<close>

theorem final_content_composition:
  "finalContent (convertToOpenAIResponse r) =
     Some (if reasoningTextOf r \<noteq> []
           then ''<think>'' @ reasoningTextOf r @ ''</think>\<newline>'' @ assistantTextOf r
           else assistantTextOf r)
   \<and> (\<not> list_ex isAssistantItem (CloudflareResponse.Output r) \<longrightarrow> assistantTextOf r = [])"
  by (simp add: finalContent_convert composeFinal_def assistantTextOf_none)

theorem final_content_composition_witness:
  "reasoningTextOf (backendResult [reasoningItem ''plan'', assistantItem ''hello'']) \<noteq> []
   \<and> finalContent (convertToOpenAIResponse (backendResult [reasoningItem ''plan'', assistantItem ''hello'']))
       = Some ''<think>plan</think>\<newline>hello''
   \<and> \<not> list_ex isAssistantItem (CloudflareResponse.Output (backendResult [reasoningItem ''plan'']))
   \<and> finalContent (convertToOpenAIResponse (backendResult [reasoningItem ''plan'']))
       = Some ''<think>plan</think>\<newline>''"
  using final_content_composition [of "backendResult [reasoningItem ''plan'', assistantItem ''hello'']"]
        final_content_composition [of "backendResult [reasoningItem ''plan'']"]
  by (simp add: example_texts) (simp add: backendResult_def reasoningItem_def isAssistantItem_def)

text \<open>
  A result with a reasoning item that carries no text and an assistant message item:
  the composed text is the assistant text, with no delimited block in front.
\<close>

theorem reasoning_item_without_text_counterexample:
  "isReasoningItem (CloudflareResponse.Output (backendResult [reasoningItem [], assistantItem ''hi'']) ! 0)
   \<and> isAssistantItem (CloudflareResponse.Output (backendResult [reasoningItem [], assistantItem ''hi'']) ! 1)
   \<and> finalContent (convertToOpenAIResponse (backendResult [reasoningItem [], assistantItem ''hi'']))
       = Some ''hi''
   \<and> \<not> prefix ''<think>'' ''hi''"
  by (simp add: finalContent_convert composeFinal_def example_texts)
     (simp add: backendResult_def reasoningItem_def assistantItem_def isReasoningItem_def isAssistantItem_def)


section \<open>Evaluating the encoder\<close>

lemmas json_string_simps =
  appendString_def htmlSafeSet_def safeSet_def escapeByte_def hex_def dquote_def
  backslash_def Let_def

lemma example_numbers:
  "FormatInt 0 = ''0''" "FormatInt 3 = ''3''" "FormatInt 5 = ''5''" "FormatInt 8 = ''8''"
  "FormatInt 1700000000 = ''1700000000''"
  "FormatInt 1700000001 = ''1700000001''"
  "FormatInt 1700000002 = ''1700000002''"
  by (simp_all add: FormatInt_def decimal.simps)

lemma field_names:
  \<open>appendString h ''model'' = ''"model"''\<close>
  \<open>appendString h ''input'' = ''"input"''\<close>
  \<open>appendString h ''temperature'' = ''"temperature"''\<close>
  \<open>appendString h ''top_p'' = ''"top_p"''\<close>
  by (simp_all add: json_string_simps)

section \<open>Properties of the Request Translator\<close>

lemma appendMessages_map:
  "appendMessages msgs acc =
     acc @ map (\<lambda>msg. [(''role'', JString (Message.Role msg)),
                        (''content'', Message.Content msg)]) msgs"
  by (induction msgs arbitrary: acc) simp_all

lemma convertToCloudflareRequest_eq:
  "convertToCloudflareRequest config openaiReq =
     \<lparr> CloudflareRequest.Model = Config.Model config,
       CloudflareRequest.Input =
         map (\<lambda>msg. [(''role'', JString (Message.Role msg)),
                      (''content'', Message.Content msg)])
           (OpenAIRequest.Messages openaiReq),
       CloudflareRequest.Temperature = OpenAIRequest.Temperature openaiReq,
       CloudflareRequest.TopP = OpenAIRequest.TopP openaiReq \<rparr>"
  by (simp add: convertToCloudflareRequest_def appendMessages_map Let_def)

text \<open>
  Claim C4. The backend request carries the configured model, and the model the caller
  names has no effect on the backend request: changing it changes nothing.
\<close>

theorem server_model_overrides_caller_model:
  "CloudflareRequest.Model (convertToCloudflareRequest config openaiReq) = Config.Model config
   \<and> convertToCloudflareRequest config (openaiReq \<lparr> OpenAIRequest.Model := m \<rparr>)
       = convertToCloudflareRequest config openaiReq"
  by (simp add: convertToCloudflareRequest_eq)

theorem server_model_overrides_caller_model_witness:
  "OpenAIRequest.Model exampleRequest = ''gpt-4o''
   \<and> CloudflareRequest.Model (convertToCloudflareRequest exampleConfig exampleRequest)
       = ''@cf/openai/gpt-oss-120b''
   \<and> convertToCloudflareRequest exampleConfig (exampleRequest \<lparr> OpenAIRequest.Model := ''other'' \<rparr>)
       = convertToCloudflareRequest exampleConfig exampleRequest"
  using server_model_overrides_caller_model [of exampleConfig exampleRequest "''other''"]
  by (simp add: exampleConfig_def exampleRequest_def)

text \<open>
  Claim C9. The backend request has the caller's temperature and \<^verbatim>\<open>top_p\<close> exactly when
  the caller gave them: the two fields are copied as they are, pointer or nil, and the
  serialized request has a field \<^verbatim>\<open>temperature\<close> (or \<^verbatim>\<open>top_p\<close>) exactly when the caller
  gave one, with the caller's value; without one the field is absent, not a zero. The
  body sent to the backend is written out: an absent field contributes no byte to it.
\<close>

theorem optional_fields_forwarded_when_present:
  \<open>CloudflareRequest.Temperature (convertToCloudflareRequest config openaiReq)
     = OpenAIRequest.Temperature openaiReq
   \<and> CloudflareRequest.TopP (convertToCloudflareRequest config openaiReq)
     = OpenAIRequest.TopP openaiReq
   \<and> map_of (structFields (jsonOfCloudflareRequest (convertToCloudflareRequest config openaiReq)))
        ''temperature''
     = map_option JFloat (OpenAIRequest.Temperature openaiReq)
   \<and> map_of (structFields (jsonOfCloudflareRequest (convertToCloudflareRequest config openaiReq)))
        ''top_p''
     = map_option JFloat (OpenAIRequest.TopP openaiReq)
   \<and> (''temperature'' \<in> fst ` set (structFields (jsonOfCloudflareRequest
          (convertToCloudflareRequest config openaiReq)))
        \<longleftrightarrow> OpenAIRequest.Temperature openaiReq \<noteq> None)
   \<and> (''top_p'' \<in> fst ` set (structFields (jsonOfCloudflareRequest
          (convertToCloudflareRequest config openaiReq)))
        \<longleftrightarrow> OpenAIRequest.TopP openaiReq \<noteq> None)
   \<and> BackendCall.Body (newRequest env config (convertToCloudflareRequest config openaiReq))
     = ''{"model":'' @ appendString True (Config.Model config)
       @ '',"input":''
       @ marshal (FormatFloat env) True
           (if OpenAIRequest.Messages openaiReq = [] then JNull
            else JArray (map JMap
                   (CloudflareRequest.Input (convertToCloudflareRequest config openaiReq))))
       @ (case OpenAIRequest.Temperature openaiReq of
            None \<Rightarrow> [] | Some t \<Rightarrow> '',"temperature":'' @ FormatFloat env t)
       @ (case OpenAIRequest.TopP openaiReq of
            None \<Rightarrow> [] | Some p \<Rightarrow> '',"top_p":'' @ FormatFloat env p)
       @ ''}''\<close>
  by (simp add: convertToCloudflareRequest_eq jsonOfCloudflareRequest_def structFields_def
        newRequest_def field_names split: option.splits)

theorem optional_fields_forwarded_when_present_witness:
  \<open>OpenAIRequest.Temperature exampleRequest = Some (Float64 0x3FE0000000000000)
   \<and> OpenAIRequest.TopP exampleRequest = None
   \<and> CloudflareRequest.Temperature (convertToCloudflareRequest exampleConfig exampleRequest)
       = Some (Float64 0x3FE0000000000000)
   \<and> CloudflareRequest.TopP (convertToCloudflareRequest exampleConfig exampleRequest) = None
   \<and> ''temperature'' \<in> fst ` set (structFields (jsonOfCloudflareRequest
          (convertToCloudflareRequest exampleConfig exampleRequest)))
   \<and> ''top_p'' \<notin> fst ` set (structFields (jsonOfCloudflareRequest
          (convertToCloudflareRequest exampleConfig exampleRequest)))
   \<and> BackendCall.Body (newRequest exampleEnv exampleConfig
          (convertToCloudflareRequest exampleConfig exampleRequest))
       = ''{"model":"@cf/openai/gpt-oss-120b","input":[{"content":"hi","role":"user"}],"temperature":0.5}''\<close>
  using optional_fields_forwarded_when_present [of exampleConfig exampleRequest exampleEnv]
  by (simp add: exampleRequest_def)
     (simp add: convertToCloudflareRequest_eq exampleConfig_def exampleEnv_def
        json_string_simps)

section \<open>Properties of the handlers' guards\<close>

lemma example_auth:
  "\<not> authorizeClient exampleConfig (requestWithout method)"
  "authorizeClient exampleConfig (requestWith method ''Bearer secret'')"
  "\<not> authorizeClient exampleConfig (requestWith method ''Bearer guess'')"
  "authorizeClient openConfig (requestWithout method)"
  by (simp_all add: authorizeClient_def exampleConfig_def openConfig_def requestWithout_def
        requestWith_def HeaderGet_def)

text \<open>
  Claim C5. Both handlers check the authorization before the method. A request that
  passes the authorization check and has the wrong method (not POST for chat
  completions, not GET for models) is answered 405; a request that fails the
  authorization check is answered 401 whatever its method.
\<close>

theorem method_mismatch_when_authorized:
  "(authorizeClient config r \<and> Request.Method r \<noteq> ''POST''
      \<longrightarrow> handleChatCompletions env config r = ([Error ''Method not allowed'' 405], None)
          \<and> replyStatus (fst (handleChatCompletions env config r)) = 405)
   \<and> (authorizeClient config r \<and> Request.Method r \<noteq> ''GET''
      \<longrightarrow> handleModels env config r = ([Error ''Method not allowed'' 405], None)
          \<and> replyStatus (fst (handleModels env config r)) = 405)
   \<and> (\<not> authorizeClient config r
      \<longrightarrow> replyStatus (fst (handleChatCompletions env config r)) = 401
          \<and> replyStatus (fst (handleModels env config r)) = 401)"
  by (simp add: handleChatCompletions_def handleModels_def)

theorem method_mismatch_when_authorized_witness:
  "authorizeClient exampleConfig (requestWith ''GET'' ''Bearer secret'')
   \<and> Request.Method (requestWith ''GET'' ''Bearer secret'') \<noteq> ''POST''
   \<and> replyStatus (fst (handleChatCompletions exampleEnv exampleConfig
         (requestWith ''GET'' ''Bearer secret''))) = 405
   \<and> authorizeClient exampleConfig (requestWith ''DELETE'' ''Bearer secret'')
   \<and> Request.Method (requestWith ''DELETE'' ''Bearer secret'') \<noteq> ''GET''
   \<and> replyStatus (fst (handleModels exampleEnv exampleConfig
         (requestWith ''DELETE'' ''Bearer secret''))) = 405
   \<and> \<not> authorizeClient exampleConfig (requestWithout ''DELETE'')
   \<and> replyStatus (fst (handleModels exampleEnv exampleConfig (requestWithout ''DELETE''))) = 401"
  using method_mismatch_when_authorized
          [of exampleConfig "requestWith ''GET'' ''Bearer secret''" exampleEnv]
        method_mismatch_when_authorized
          [of exampleConfig "requestWith ''DELETE'' ''Bearer secret''" exampleEnv]
        method_mismatch_when_authorized
          [of exampleConfig "requestWithout ''DELETE''" exampleEnv]
  by (simp add: example_auth) (simp add: requestWith_def)

text \<open>
  A GET on the chat-completions endpoint without the key: the method is wrong and the
  answer is 401, not 405.
\<close>

theorem unauthorized_method_mismatch_counterexample:
  "Request.Method (requestWithout ''GET'') \<noteq> ''POST''
   \<and> replyStatus (fst (handleChatCompletions exampleEnv exampleConfig (requestWithout ''GET'')))
       = 401
   \<and> replyStatus (fst (handleChatCompletions exampleEnv exampleConfig (requestWithout ''GET'')))
       \<noteq> 405"
  by (simp add: handleChatCompletions_def example_auth) (simp add: requestWithout_def)

text \<open>
  Claim C7. With a client key configured, a chat-completions request whose
  \<^verbatim>\<open>Authorization\<close> header is not exactly \<^verbatim>\<open>Bearer\<close>, a space and the key (a request
  without the header among them) is answered 401 and nothing else happens: no call to
  the backend is made. Without a client key the authorization check passes for every
  request.
\<close>

theorem unauthorized_request_stops_before_backend:
  "(Config.ClientKey config \<noteq> []
      \<and> HeaderGet (Request.Header r) ''Authorization'' \<noteq> ''Bearer '' @ Config.ClientKey config
     \<longrightarrow> handleChatCompletions env config r = ([Error ''Unauthorized'' 401], None)
         \<and> replyStatus (fst (handleChatCompletions env config r)) = 401
         \<and> backendCalls (fst (handleChatCompletions env config r)) = [])
   \<and> (Config.ClientKey config \<noteq> [] \<and> map_of (Request.Header r) ''Authorization'' = None
     \<longrightarrow> handleChatCompletions env config r = ([Error ''Unauthorized'' 401], None))
   \<and> (Config.ClientKey config = [] \<longrightarrow> authorizeClient config r)"
  by (simp add: handleChatCompletions_def authorizeClient_def HeaderGet_def)

theorem unauthorized_request_stops_before_backend_witness:
  "Config.ClientKey exampleConfig \<noteq> []
   \<and> map_of (Request.Header (requestWithout ''POST'')) ''Authorization'' = None
   \<and> handleChatCompletions exampleEnv exampleConfig (requestWithout ''POST'')
       = ([Error ''Unauthorized'' 401], None)
   \<and> HeaderGet (Request.Header (requestWith ''POST'' ''Bearer guess'')) ''Authorization''
       \<noteq> ''Bearer '' @ Config.ClientKey exampleConfig
   \<and> replyStatus (fst (handleChatCompletions exampleEnv exampleConfig
         (requestWith ''POST'' ''Bearer guess''))) = 401
   \<and> backendCalls (fst (handleChatCompletions exampleEnv exampleConfig
         (requestWith ''POST'' ''Bearer guess''))) = []
   \<and> Config.ClientKey openConfig = []
   \<and> authorizeClient openConfig (requestWithout ''POST'')"
  using unauthorized_request_stops_before_backend
          [of exampleConfig "requestWithout ''POST''" exampleEnv]
        unauthorized_request_stops_before_backend
          [of exampleConfig "requestWith ''POST'' ''Bearer guess''" exampleEnv]
        unauthorized_request_stops_before_backend
          [of openConfig "requestWithout ''POST''" exampleEnv]
  by (simp add: exampleConfig_def openConfig_def requestWithout_def requestWith_def
        HeaderGet_def)

section \<open>Properties of the Backend Client\<close>



section \<open>The paths of the chat-completions handler\<close>

lemma streamResponse_string:
  "OpenAIResponse.Choices resp = choice # others \<Longrightarrow>
   Message.Content (Choice.Message choice) = JString s \<Longrightarrow>
   snd (streamResponse env resp) = None"
  by (simp add: streamResponse_def Let_def)

lemma streamResponse_convert:
  "snd (streamResponse env (convertToOpenAIResponse cr)) = None"
  by (rule streamResponse_string [OF convert_Choices]) simp

lemma callCloudflareAPI_panic:
  "callCloudflareAPI env config req = (called, Inl p) \<Longrightarrow> p = NilPointerDereference"
  by (auto simp: callCloudflareAPI_def Let_def split: if_splits sum.splits prod.splits)

lemma handleChatCompletions_panic:
  assumes a: "snd (handleChatCompletions env config r) = Some p"
  shows "p = NilPointerDereference"
proof (cases "authorizeClient config r \<and> Request.Method r = ''POST''")
  case False
  with a show ?thesis by (auto simp: handleChatCompletions_def split: if_splits)
next
  case True
  show ?thesis
  proof (cases "UnmarshalRequest env (Request.Body r)")
    case (Inl err)
    with a True show ?thesis by (simp add: handleChatCompletions_def)
  next
    case (Inr openaiReq)
    obtain called res where
      c: "callCloudflareAPI env config (convertToCloudflareRequest config openaiReq) = (called, res)"
      by (cases "callCloudflareAPI env config (convertToCloudflareRequest config openaiReq)")
    show ?thesis
    proof (cases res)
      case (Inl q)
      with a True Inr c callCloudflareAPI_panic [of env config _ called q]
      show ?thesis by (simp add: handleChatCompletions_def)
    next
      case r: (Inr triple)
      obtain cfResp raw err where t: "triple = (cfResp, raw, err)" by (cases triple)
      show ?thesis
      proof (cases err)
        case (Some e)
        with a True Inr c r t show ?thesis by (simp add: handleChatCompletions_def)
      next
        case None
        show ?thesis
        proof (cases cfResp)
          case n: None
          with a True Inr c r t None show ?thesis by (simp add: handleChatCompletions_def)
        next
          case (Some cr)
          with a True Inr c r t None streamResponse_convert [of env cr] show ?thesis
            by (cases "streamResponse env (convertToOpenAIResponse cr)")
               (simp add: handleChatCompletions_def Let_def split: if_splits)
        qed
      qed
    qed
  qed
qed

text \<open>
  The path on which everything succeeds: the handler logs the request, calls the
  backend, logs the raw answer and then runs the stream branch on the translated reply,
  or encodes the reply as a whole.
\<close>

lemma handleChatCompletions_success:
  assumes "authorizeClient config r" "Request.Method r = ''POST''"
      and "UnmarshalRequest env (Request.Body r) = Inr openaiReq"
      and "URLParses env (backendURL config)"
      and "Do env (newRequest env config (convertToCloudflareRequest config openaiReq))
             = Inr (200, body)"
      and "UnmarshalResponse env body = Inr cloudflareResp"
  shows "handleChatCompletions env config r =
           (if OpenAIRequest.Stream openaiReq
            then ([Log (UserRequestJSON (Request.Body r)),
                   Call (newRequest env config (convertToCloudflareRequest config openaiReq)),
                   Log (CloudflareRawResponse body)]
                  @ fst (streamResponse env (convertToOpenAIResponse cloudflareResp)),
                  None)
            else ([Log (UserRequestJSON (Request.Body r)),
                   Call (newRequest env config (convertToCloudflareRequest config openaiReq)),
                   Log (CloudflareRawResponse body),
                   SetHeader ''Content-Type'' ''application/json'',
                   Encode False (jsonOfOpenAIResponse (convertToOpenAIResponse cloudflareResp))],
                  None))"
proof -
  have c: "callCloudflareAPI env config (convertToCloudflareRequest config openaiReq)
             = ([Call (newRequest env config (convertToCloudflareRequest config openaiReq))],
                Inr (Some cloudflareResp, body, None))"
    using assms(4-6) by (simp add: callCloudflareAPI_def Let_def)
  obtain written where
    w: "streamResponse env (convertToOpenAIResponse cloudflareResp) = (written, None)"
    using streamResponse_convert [of env cloudflareResp]
    by (cases "streamResponse env (convertToOpenAIResponse cloudflareResp)") simp
  show ?thesis
    using assms(1-3) c w by (simp add: handleChatCompletions_def Let_def)
qed

text \<open>
  Claim C10. The Response Translator's reply has exactly one choice, and the content of
  its message is a string; so the stream branch run on it passes the index
  \<^verbatim>\<open>Choices[0]\<close> and the assertion \<^verbatim>\<open>.(string)\<close>, and the chat-completions handler never
  ends in either of these two panics.
\<close>

theorem translator_output_never_fails_the_stream_branch:
  "(\<exists>choice s. OpenAIResponse.Choices (convertToOpenAIResponse cr) = [choice]
        \<and> Message.Content (Choice.Message choice) = JString s)
   \<and> snd (streamResponse env (convertToOpenAIResponse cr)) = None
   \<and> snd (handleChatCompletions env config r) \<noteq> Some IndexOutOfRange
   \<and> snd (handleChatCompletions env config r) \<noteq> Some InterfaceConversion"
  using handleChatCompletions_panic [of env config r]
  by (auto simp: convert_Choices streamResponse_convert)

theorem translator_output_never_fails_the_stream_branch_witness:
  "length (OpenAIResponse.Choices (convertToOpenAIResponse
        (backendResult [reasoningItem ''plan'', assistantItem ''ok'']))) = 1
   \<and> finalContent (convertToOpenAIResponse
        (backendResult [reasoningItem ''plan'', assistantItem ''ok'']))
       = Some ''<think>plan</think>\<newline>ok''
   \<and> snd (streamResponse exampleEnv (convertToOpenAIResponse
        (backendResult [reasoningItem ''plan'', assistantItem ''ok'']))) = None
   \<and> snd (handleChatCompletions exampleEnv exampleConfig
        (requestWith ''POST'' ''Bearer secret'')) \<noteq> Some IndexOutOfRange
   \<and> snd (handleChatCompletions exampleEnv exampleConfig
        (requestWith ''POST'' ''Bearer secret'')) \<noteq> Some InterfaceConversion"
  using translator_output_never_fails_the_stream_branch
          [of "backendResult [reasoningItem ''plan'', assistantItem ''ok'']" exampleEnv
              exampleConfig "requestWith ''POST'' ''Bearer secret''"]
  by (simp add: convert_Choices finalContent_convert composeFinal_def example_texts)

section \<open>Decoding and encoding well-formed UTF-8\<close>

lemma digit_mod: "(y::nat) < n \<Longrightarrow> (k * n + y) mod n = y" by simp
lemma digit_div: "(y::nat) < n \<Longrightarrow> (k * n + y) div n = k" by simp

lemma split3:
  fixes a x y :: nat
  assumes "x < 64" "y < 64"
  shows "(a * 4096 + x * 64 + y) mod 64 = y"
    and "(a * 4096 + x * 64 + y) div 64 mod 64 = x"
    and "(a * 4096 + x * 64 + y) div 4096 = a"
proof -
  have e: "a * 4096 + x * 64 + y = (a * 64 + x) * 64 + y" by simp
  show "(a * 4096 + x * 64 + y) mod 64 = y"
    unfolding e using assms(2) by (rule digit_mod)
  have d: "(a * 4096 + x * 64 + y) div 64 = a * 64 + x"
    unfolding e using assms(2) by (rule digit_div)
  show "(a * 4096 + x * 64 + y) div 64 mod 64 = x"
    unfolding d using assms(1) by (rule digit_mod)
  have f: "a * 4096 + x * 64 + y = a * 4096 + (x * 64 + y)" by simp
  have "x * 64 + y < 4096" using assms by simp
  then show "(a * 4096 + x * 64 + y) div 4096 = a"
    unfolding f by (rule digit_div)
qed

lemma split4:
  fixes a x y z :: nat
  assumes "x < 64" "y < 64" "z < 64"
  shows "(a * 262144 + x * 4096 + y * 64 + z) mod 64 = z"
    and "(a * 262144 + x * 4096 + y * 64 + z) div 64 mod 64 = y"
    and "(a * 262144 + x * 4096 + y * 64 + z) div 4096 mod 64 = x"
    and "(a * 262144 + x * 4096 + y * 64 + z) div 262144 = a"
proof -
  have e: "a * 262144 + x * 4096 + y * 64 + z = (a * 4096 + x * 64 + y) * 64 + z" by simp
  show "(a * 262144 + x * 4096 + y * 64 + z) mod 64 = z"
    unfolding e using assms(3) by (rule digit_mod)
  have d: "(a * 262144 + x * 4096 + y * 64 + z) div 64 = a * 4096 + x * 64 + y"
    unfolding e using assms(3) by (rule digit_div)
  show "(a * 262144 + x * 4096 + y * 64 + z) div 64 mod 64 = y"
    unfolding d using assms(1,2) by (rule split3(1))
  have g: "a * 262144 + x * 4096 + y * 64 + z = (a * 64 + x) * 4096 + (y * 64 + z)" by simp
  have lt: "y * 64 + z < 4096" using assms by simp
  have d2: "(a * 262144 + x * 4096 + y * 64 + z) div 4096 = a * 64 + x"
    unfolding g using lt by (rule digit_div)
  show "(a * 262144 + x * 4096 + y * 64 + z) div 4096 mod 64 = x"
    unfolding d2 using assms(1) by (rule digit_mod)
  have h: "a * 262144 + x * 4096 + y * 64 + z = a * 262144 + (x * 4096 + y * 64 + z)" by simp
  have "x * 4096 + y * 64 + z < 262144" using assms by simp
  then show "(a * 262144 + x * 4096 + y * 64 + z) div 262144 = a"
    unfolding h by (rule digit_div)
qed

lemma decode1:
  assumes "wellFormedBytes [b0]"
  shows "\<exists>r. decodeBytes ([b0] @ rest) = (r, length [b0]) \<and> EncodeRune r = [b0]"
  using assms by (simp add: EncodeRune_def)

lemma decode2:
  assumes "wellFormedBytes [b0, b1]"
  shows "\<exists>r. decodeBytes ([b0, b1] @ rest) = (r, length [b0, b1]) \<and> EncodeRune r = [b0, b1]"
proof -
  obtain a x where ab: "b0 = 0xC0 + a" "2 \<le> a" "a < 32" "b1 = 0x80 + x" "x < 64"
    using assms by (auto simp: contByte_def intro!: that [of "b0 - 0xC0" "b1 - 0x80"])
  have d: "decodeBytes (b0 # b1 # rest) = (a * 64 + x, 2)"
    using ab by (simp add: acceptLo_def acceptHi_def)
  have e: "EncodeRune (a * 64 + x) = [b0, b1]"
    using ab by (simp add: EncodeRune_def)
  from d e show ?thesis by simp
qed


lemma decode3:
  assumes "wellFormedBytes [b0, b1, b2]"
  shows "\<exists>r. decodeBytes ([b0, b1, b2] @ rest) = (r, length [b0, b1, b2])
            \<and> EncodeRune r = [b0, b1, b2]"
proof -
  obtain a x y where ab:
      "b0 = 0xE0 + a" "a < 16" "b1 = 0x80 + x" "x < 64" "b2 = 0x80 + y" "y < 64"
      "a = 0 \<longrightarrow> 32 \<le> x" "a = 13 \<longrightarrow> x < 32"
    using assms by (auto simp: contByte_def intro!: that [of "b0 - 0xE0" "b1 - 0x80" "b2 - 0x80"])
  let ?r = "a * 4096 + x * 64 + y"
  have d: "decodeBytes (b0 # b1 # b2 # rest) = (?r, 3)"
    using ab by (auto simp: acceptLo_def acceptHi_def contByte_def)
  have lo: "0x800 \<le> ?r" using ab by (cases "a = 0") auto
  have hi: "?r < 0x10000" using ab by simp
  have ns: "\<not> (0xD800 \<le> ?r \<and> ?r \<le> 0xDFFF)" using ab by (cases "a = 13") auto
  have e: "EncodeRune ?r = [b0, b1, b2]"
    unfolding EncodeRune_def using lo hi ns ab by (simp add: split3)
  from d e show ?thesis by simp
qed

lemma decode4:
  assumes "wellFormedBytes [b0, b1, b2, b3]"
  shows "\<exists>r. decodeBytes ([b0, b1, b2, b3] @ rest) = (r, length [b0, b1, b2, b3])
            \<and> EncodeRune r = [b0, b1, b2, b3]"
proof -
  obtain a x y z where ab:
      "b0 = 0xF0 + a" "a < 5" "b1 = 0x80 + x" "x < 64" "b2 = 0x80 + y" "y < 64"
      "b3 = 0x80 + z" "z < 64" "a = 0 \<longrightarrow> 16 \<le> x" "a = 4 \<longrightarrow> x < 16"
    using assms
    by (auto simp: contByte_def
          intro!: that [of "b0 - 0xF0" "b1 - 0x80" "b2 - 0x80" "b3 - 0x80"])
  let ?r = "a * 262144 + x * 4096 + y * 64 + z"
  have d: "decodeBytes (b0 # b1 # b2 # b3 # rest) = (?r, 4)"
    using ab by (auto simp: acceptLo_def acceptHi_def contByte_def)
  have lo: "0x10000 \<le> ?r" using ab by (cases "a = 0") auto
  have hi: "?r \<le> 0x10FFFF" using ab by (cases "a = 4") auto
  have e: "EncodeRune ?r = [b0, b1, b2, b3]"
    unfolding EncodeRune_def using lo hi ab by (simp add: split4)
  from d e show ?thesis by simp
qed


lemma decode_wellFormed:
  assumes "wellFormedBytes bs"
  shows "\<exists>r. decodeBytes (bs @ rest) = (r, length bs) \<and> EncodeRune r = bs"
proof (cases bs rule: wellFormedBytes.cases)
  case (1 b0)
  from assms show ?thesis unfolding 1 by (rule decode1)
next
  case (2 b0 b1)
  from assms show ?thesis unfolding 2 by (rule decode2)
next
  case (3 b0 b1 b2)
  from assms show ?thesis unfolding 3 by (rule decode3)
next
  case (4 b0 b1 b2 b3)
  from assms show ?thesis unfolding 4 by (rule decode4)
qed (use assms in auto)

lemma stringToRunes_char:
  assumes "utf8Char c"
  shows "\<exists>r. stringToRunes (c @ rest) = r # stringToRunes rest \<and> runeToString r = c"
proof -
  from assms obtain r where
    d: "decodeBytes (map of_char c @ map of_char rest) = (r, length (map of_char c))"
    and e: "EncodeRune r = map of_char c"
    using decode_wellFormed [of "map of_char c" "map of_char rest"]
    by (auto simp: utf8Char_def)
  from assms obtain b c' where c: "c = b # c'"
    by (cases c) (auto simp: utf8Char_def)
  from d c have "stringToRunes (c @ rest) = r # stringToRunes rest"
    by (simp add: DecodeRuneInString_def)
  moreover from e have "runeToString r = c"
    by (simp add: runeToString_def)
  ultimately show ?thesis by blast
qed

lemma runes_of_characters:
  assumes "\<forall>c \<in> set cs. utf8Char c"
  shows "map runeToString (stringToRunes (concat cs)) = cs"
  using assms
proof (induction cs)
  case Nil
  show ?case by simp
next
  case (Cons c cs)
  from Cons.prems obtain r where
    "stringToRunes (c @ concat cs) = r # stringToRunes (concat cs)" "runeToString r = c"
    using stringToRunes_char [of c "concat cs"] by auto
  with Cons show ?case by simp
qed


section \<open>Properties of the Streaming Emitter\<close>

lemma finalContent_SomeD:
  assumes "finalContent resp = Some text"
  obtains choice others where
    "OpenAIResponse.Choices resp = choice # others"
    "Message.Content (Choice.Message choice) = JString text"
  using assms by (auto simp: finalContent_def split: list.splits json.splits)

lemma streamResponse_effects:
  assumes "finalContent resp = Some text"
  shows "fst (streamResponse env resp) =
           [SetHeader ''Content-Type'' ''text/event-stream'',
            SetHeader ''Cache-Control'' ''no-cache'',
            SetHeader ''Connection'' ''keep-alive'']
           @ [Write ''data: '', Encode False (startEvent resp (Now env 0)),
              Write ''\<newline>'', Flush]
           @ emitRunes env resp 1 (stringToRunes text)
           @ [Write ''data: '',
              Encode False (endEvent resp (Now env (Suc (length (stringToRunes text))))),
              Write ''\<newline>\<newline>'', Write ''data: [DONE]\<newline>\<newline>'', Flush]"
proof -
  from assms obtain choice others where
    "OpenAIResponse.Choices resp = choice # others"
    "Message.Content (Choice.Message choice) = JString text"
    by (rule finalContent_SomeD)
  then show ?thesis by (simp add: streamResponse_def Let_def)
qed

lemmas event_simps =
  startEvent_def contentEvent_def endEvent_def firstChoice_def deltaOf_def finishReasonOf_def
  deltaContent_def usageOf_def isStartFrame_def isContentFrame_def isEndFrame_def

lemma deltaContent_events:
  "deltaContent (startEvent resp now) = None"
  "deltaContent (contentEvent resp now r) = Some (runeToString r)"
  "deltaContent (endEvent resp now) = None"
  by (simp_all add: event_simps)

lemma event_phases:
  "isStartFrame (startEvent resp now)"
  "\<not> isStartFrame (contentEvent resp now r)"
  "isContentFrame (contentEvent resp now r)"
  "\<not> isStartFrame (endEvent resp now)"
  "\<not> isContentFrame (endEvent resp now)"
  "isEndFrame resp (endEvent resp now)"
  by (simp_all add: event_simps)

lemma contentDeltas_append:
  "contentDeltas (xs @ ys) = contentDeltas xs @ contentDeltas ys"
  by (induction xs rule: contentDeltas.induct) (simp_all split: option.splits)

lemma frames_append: "frames (xs @ ys) = frames xs @ frames ys"
  by (induction xs rule: frames.induct) simp_all

lemma escapeFlags_append: "escapeFlags (xs @ ys) = escapeFlags xs @ escapeFlags ys"
  by (induction xs rule: escapeFlags.induct) simp_all

lemma contentDeltas_emitRunes:
  "contentDeltas (emitRunes env resp k runes) = map runeToString runes"
  by (induction runes arbitrary: k) (simp_all add: deltaContent_events)

lemma frames_emitRunes:
  "map (classify resp) (frames (emitRunes env resp k runes))
     = replicate (length runes) ContentFrame"
  by (induction runes arbitrary: k) (simp_all add: event_phases)

lemma escapeFlags_emitRunes:
  "escapeFlags (emitRunes env resp k runes) = replicate (length runes) False"
  by (induction runes arbitrary: k) simp_all

lemma contentDeltas_stream:
  assumes "finalContent resp = Some text"
  shows "contentDeltas (fst (streamResponse env resp)) = map runeToString (stringToRunes text)"
  by (simp add: streamResponse_effects [OF assms] contentDeltas_append
        contentDeltas_emitRunes deltaContent_events)

lemma phases_stream:
  assumes "finalContent resp = Some text"
  shows "map (classify resp) (frames (fst (streamResponse env resp)))
           = [StartFrame] @ replicate (length (stringToRunes text)) ContentFrame
             @ [EndFrame, Sentinel]"
  by (simp add: streamResponse_effects [OF assms] frames_append frames_emitRunes
        event_phases)

lemmas utf8_eval_simps =
  DecodeRuneInString_def acceptLo_def acceptHi_def contByte_def runeToString_def
  EncodeRune_def char_of_eq_iff

text \<open>
  Claim C2. When the final text is valid UTF-8, that is the concatenation of a sequence
  of well-formed characters, the content deltas of the stream are exactly these
  characters, one per frame and in order: no character is split over two frames, and
  the deltas put together give the text back.
\<close>

theorem content_frames_carry_whole_characters:
  assumes "\<forall>c \<in> set cs. utf8Char c"
      and "finalContent resp = Some (concat cs)"
  shows "contentDeltas (fst (streamResponse env resp)) = cs
         \<and> concat (contentDeltas (fst (streamResponse env resp))) = concat cs"
  using runes_of_characters [OF assms(1)] contentDeltas_stream [OF assms(2), of env]
  by simp

theorem content_frames_carry_whole_characters_witness:
  "list_all utf8Char exampleCharacters
   \<and> finalContent (convertToOpenAIResponse (backendResult [assistantItem (concat exampleCharacters)]))
       = Some [CHR 0xE4, CHR 0xBD, CHR 0xA0, CHR ''a'', CHR 0xF0, CHR 0x9F, CHR 0x98, CHR 0x80,
               CHR 0xC3, CHR 0xA9]
   \<and> contentDeltas (fst (streamResponse exampleEnv
         (convertToOpenAIResponse (backendResult [assistantItem (concat exampleCharacters)]))))
       = [[CHR 0xE4, CHR 0xBD, CHR 0xA0], ''a'', [CHR 0xF0, CHR 0x9F, CHR 0x98, CHR 0x80],
          [CHR 0xC3, CHR 0xA9]]"
proof -
  have w: "\<forall>c \<in> set exampleCharacters. utf8Char c"
    by (simp add: exampleCharacters_def utf8Char_def contByte_def)
  have t: "finalContent (convertToOpenAIResponse
             (backendResult [assistantItem (concat exampleCharacters)]))
           = Some (concat exampleCharacters)"
    by (simp add: finalContent_convert example_texts composeFinal_def)
  from content_frames_carry_whole_characters [OF w t, of exampleEnv] w t
  show ?thesis
    by (simp add: list_all_iff) (simp add: exampleCharacters_def)
qed

text \<open>
  Claim C3. For a reply whose first choice has a string content, the stream is one
  start frame, then one content frame for each rune of the text (none for the empty
  text), then one end frame, then the sentinel, in this order and with nothing else.
  Every reply of the Response Translator is such a reply.
\<close>

theorem stream_phases_in_order:
  "(finalContent resp = Some text \<longrightarrow>
      map (classify resp) (frames (fst (streamResponse env resp)))
        = [StartFrame] @ replicate (length (stringToRunes text)) ContentFrame
          @ [EndFrame, Sentinel])
   \<and> (finalContent resp = Some [] \<longrightarrow>
      map (classify resp) (frames (fst (streamResponse env resp)))
        = [StartFrame, EndFrame, Sentinel])
   \<and> (\<exists>text. finalContent (convertToOpenAIResponse cr) = Some text
        \<and> map (classify (convertToOpenAIResponse cr))
              (frames (fst (streamResponse env (convertToOpenAIResponse cr))))
            = [StartFrame] @ replicate (length (stringToRunes text)) ContentFrame
              @ [EndFrame, Sentinel])"
proof (intro conjI impI)
  assume "finalContent resp = Some text"
  then show "map (classify resp) (frames (fst (streamResponse env resp)))
        = [StartFrame] @ replicate (length (stringToRunes text)) ContentFrame
          @ [EndFrame, Sentinel]"
    by (rule phases_stream)
next
  assume "finalContent resp = Some []"
  from phases_stream [OF this, of env]
  show "map (classify resp) (frames (fst (streamResponse env resp)))
        = [StartFrame, EndFrame, Sentinel]"
    by simp
next
  show "\<exists>text. finalContent (convertToOpenAIResponse cr) = Some text
        \<and> map (classify (convertToOpenAIResponse cr))
              (frames (fst (streamResponse env (convertToOpenAIResponse cr))))
            = [StartFrame] @ replicate (length (stringToRunes text)) ContentFrame
              @ [EndFrame, Sentinel]"
    using phases_stream [OF finalContent_convert [of cr], where env = env]
          finalContent_convert [of cr]
    by blast
qed

theorem stream_phases_in_order_witness:
  "finalContent (convertToOpenAIResponse (backendResult [assistantItem ''ok''])) = Some ''ok''
   \<and> map (classify (convertToOpenAIResponse (backendResult [assistantItem ''ok''])))
         (frames (fst (streamResponse exampleEnv
            (convertToOpenAIResponse (backendResult [assistantItem ''ok''])))))
       = [StartFrame, ContentFrame, ContentFrame, EndFrame, Sentinel]
   \<and> contentDeltas (fst (streamResponse exampleEnv
         (convertToOpenAIResponse (backendResult [assistantItem ''ok'']))))
       = [''o'', ''k'']
   \<and> finalContent (convertToOpenAIResponse (backendResult [])) = Some []
   \<and> map (classify (convertToOpenAIResponse (backendResult [])))
         (frames (fst (streamResponse exampleEnv (convertToOpenAIResponse (backendResult [])))))
       = [StartFrame, EndFrame, Sentinel]"
proof -
  have ok: "finalContent (convertToOpenAIResponse (backendResult [assistantItem ''ok'']))
              = Some ''ok''"
    by (simp add: finalContent_convert example_texts composeFinal_def)
  have none: "finalContent (convertToOpenAIResponse (backendResult [])) = Some []"
    by (simp add: finalContent_convert composeFinal_def reasoningTextOf_def assistantTextOf_def
          lastText_def backendResult_def)
  from stream_phases_in_order
         [of "convertToOpenAIResponse (backendResult [assistantItem ''ok''])" "''ok''"
             exampleEnv "backendResult []"] ok
  have "map (classify (convertToOpenAIResponse (backendResult [assistantItem ''ok''])))
          (frames (fst (streamResponse exampleEnv
             (convertToOpenAIResponse (backendResult [assistantItem ''ok''])))))
        = [StartFrame] @ replicate (length (stringToRunes ''ok'')) ContentFrame
          @ [EndFrame, Sentinel]"
    by blast
  then have p1: "map (classify (convertToOpenAIResponse (backendResult [assistantItem ''ok''])))
          (frames (fst (streamResponse exampleEnv
             (convertToOpenAIResponse (backendResult [assistantItem ''ok''])))))
        = [StartFrame, ContentFrame, ContentFrame, EndFrame, Sentinel]"
    by (simp add: utf8_eval_simps)
  from stream_phases_in_order
         [of "convertToOpenAIResponse (backendResult [])" "[]" exampleEnv "backendResult []"]
       none
  have p2: "map (classify (convertToOpenAIResponse (backendResult [])))
          (frames (fst (streamResponse exampleEnv (convertToOpenAIResponse (backendResult [])))))
        = [StartFrame, EndFrame, Sentinel]"
    by blast
  have d: "contentDeltas (fst (streamResponse exampleEnv
             (convertToOpenAIResponse (backendResult [assistantItem ''ok'']))))
           = [''o'', ''k'']"
    using contentDeltas_stream [OF ok, of exampleEnv] by (simp add: utf8_eval_simps)
  from ok p1 d none p2 show ?thesis by blast
qed

section \<open>The bytes of a stream\<close>

lemma responseBody_append:
  "responseBody ff (xs @ ys) = responseBody ff xs @ responseBody ff ys"
  by (simp add: responseBody_def)

lemma responseBody_Cons:
  "responseBody ff (e # es) = wireBytes ff e @ responseBody ff es"
  by (simp add: responseBody_def)

lemma responseBody_Nil: "responseBody ff [] = []"
  by (simp add: responseBody_def)

lemma responseBody_emitRunes:
  "responseBody ff (emitRunes env resp k runes) =
     concat (map (\<lambda>(i, r). ''data: '' @ marshal ff False (contentEvent resp (Now env i) r)
                              @ ''\<newline>\<newline>'')
                 (enumerate k runes))"
  by (induction runes arbitrary: k)
     (simp_all add: responseBody_Cons responseBody_Nil encodeBytes_def)

lemma responseBody_stream:
  assumes "finalContent resp = Some text"
  shows "responseBody ff (fst (streamResponse env resp)) =
           ''data: '' @ marshal ff False (startEvent resp (Now env 0)) @ ''\<newline>\<newline>''
           @ concat (map (\<lambda>(i, r). ''data: ''
                                    @ marshal ff False (contentEvent resp (Now env i) r)
                                    @ ''\<newline>\<newline>'')
                       (enumerate 1 (stringToRunes text)))
           @ ''data: ''
           @ marshal ff False (endEvent resp (Now env (Suc (length (stringToRunes text)))))
           @ ''\<newline>\<newline>\<newline>''
           @ ''data: [DONE]\<newline>\<newline>''"
  unfolding streamResponse_effects [OF assms] responseBody_append responseBody_emitRunes
  by (simp add: responseBody_Cons responseBody_Nil encodeBytes_def)

lemma escapeFlags_stream:
  assumes "finalContent resp = Some text"
  shows "set (escapeFlags (fst (streamResponse env resp))) = {False}"
  unfolding streamResponse_effects [OF assms] escapeFlags_append escapeFlags_emitRunes
  by auto

lemma escapeString_safe:
  "\<forall>b \<in> set s. safeSet (of_char b) \<Longrightarrow> escapeString False s = s"
  by (induction s) (auto simp: safeSet_def)

lemma events_frames_stream:
  assumes "finalContent resp = Some text"
  shows "events (frames (fst (streamResponse env resp))) =
           startEvent resp (Now env 0)
           # map (\<lambda>(i, r). contentEvent resp (Now env i) r) (enumerate 1 (stringToRunes text))
           @ [endEvent resp (Now env (Suc (length (stringToRunes text))))]"
proof -
  have e: "events (xs @ ys) = events xs @ events ys" for xs ys
    by (induction xs rule: events.induct) simp_all
  have r: "events (frames (emitRunes env resp k runes))
             = map (\<lambda>(i, r). contentEvent resp (Now env i) r) (enumerate k runes)" for k runes
    by (induction runes arbitrary: k) simp_all
  show ?thesis
    unfolding streamResponse_effects [OF assms] frames_append e r
    by simp
qed

text \<open>
  Claim C6. On the wire every event is the bytes \<^verbatim>\<open>data: \<close>, the JSON text of the event
  and the newline the encoder adds, followed by one more newline after the start frame
  and each content frame and by two more after the end frame; the stream ends with
  exactly \<^verbatim>\<open>data: [DONE]\<close> and two newlines. Every encoder of the stream has HTML
  escaping off, and such an encoder writes a string of printable ASCII without quote
  and backslash as it is between two quotes: \<^verbatim>\<open><\<close>, \<^verbatim>\<open>>\<close> and \<^verbatim>\<open>&\<close> are copied.
\<close>

theorem stream_wire_framing:
  assumes "finalContent resp = Some text"
  shows "responseBody ff (fst (streamResponse env resp)) =
           ''data: '' @ marshal ff False (startEvent resp (Now env 0)) @ ''\<newline>\<newline>''
           @ concat (map (\<lambda>(i, r). ''data: ''
                                    @ marshal ff False (contentEvent resp (Now env i) r)
                                    @ ''\<newline>\<newline>'')
                       (enumerate 1 (stringToRunes text)))
           @ ''data: ''
           @ marshal ff False (endEvent resp (Now env (Suc (length (stringToRunes text)))))
           @ ''\<newline>\<newline>\<newline>''
           @ ''data: [DONE]\<newline>\<newline>''
         \<and> set (escapeFlags (fst (streamResponse env resp))) = {False}
         \<and> (\<forall>s. (\<forall>b \<in> set s. safeSet (of_char b))
                \<longrightarrow> marshal ff False (JString s) = [dquote] @ s @ [dquote])
         \<and> safeSet (of_char CHR ''<'') \<and> safeSet (of_char CHR ''>'')
         \<and> safeSet (of_char CHR ''&'')"
  using responseBody_stream [OF assms, of ff env] escapeFlags_stream [OF assms, of env]
  by (simp add: appendString_def escapeString_safe safeSet_def)

lemma convert_fields:
  "OpenAIResponse.ID (convertToOpenAIResponse cr) = CloudflareResponse.ID cr"
  "OpenAIResponse.Model (convertToOpenAIResponse cr) = CloudflareResponse.Model cr"
  "Usage.PromptTokens (OpenAIResponse.Usage (convertToOpenAIResponse cr))
     = CloudflareUsage.PromptTokens (CloudflareResponse.Usage cr)"
  "Usage.CompletionTokens (OpenAIResponse.Usage (convertToOpenAIResponse cr))
     = CloudflareUsage.CompletionTokens (CloudflareResponse.Usage cr)"
  "Usage.TotalTokens (OpenAIResponse.Usage (convertToOpenAIResponse cr))
     = CloudflareUsage.TotalTokens (CloudflareResponse.Usage cr)"
  by (simp_all add: convertToOpenAIResponse_def split: prod.splits)

lemma example_start_text:
  \<open>marshal ff False
      (startEvent (convertToOpenAIResponse (backendResult items)) 1700000000)
    = ''{"choices":[{"delta":{"role":"assistant"},"finish_reason":null,"index":0}],"created":1700000000,"id":"resp_1","model":"@cf/openai/gpt-oss-120b","object":"chat.completion.chunk"}''\<close>
  by (simp add: startEvent_def convert_fields backendResult_def json_string_simps example_numbers)


lemma example_content_text:
  \<open>marshal ff False
      (contentEvent (convertToOpenAIResponse (backendResult items)) 1700000001 60)
    = ''{"choices":[{"delta":{"content":"<"},"finish_reason":null,"index":0}],"created":1700000001,"id":"resp_1","model":"@cf/openai/gpt-oss-120b","object":"chat.completion.chunk"}''\<close>
  by (simp add: contentEvent_def convert_fields backendResult_def json_string_simps
        example_numbers utf8_eval_simps)

lemma example_end_text:
  \<open>marshal ff False
      (endEvent (convertToOpenAIResponse (backendResult items)) 1700000002)
    = ''{"choices":[{"delta":{},"finish_reason":"stop","index":0}],"created":1700000002,"id":"resp_1","model":"@cf/openai/gpt-oss-120b","object":"chat.completion.chunk","usage":{"completion_tokens":5,"prompt_tokens":3,"total_tokens":8}}''\<close>
  \<open>marshal ff False
      (endEvent (convertToOpenAIResponse (backendResult items)) 1700000001)
    = ''{"choices":[{"delta":{},"finish_reason":"stop","index":0}],"created":1700000001,"id":"resp_1","model":"@cf/openai/gpt-oss-120b","object":"chat.completion.chunk","usage":{"completion_tokens":5,"prompt_tokens":3,"total_tokens":8}}''\<close>
  by (simp_all add: endEvent_def convert_fields backendResult_def json_string_simps
        example_numbers)

lemma example_clock:
  "Now exampleEnv 0 = 1700000000"
  "Now exampleEnv 1 = 1700000001"
  "Now exampleEnv (Suc 0) = 1700000001"
  "Now exampleEnv (Suc (Suc 0)) = 1700000002"
  by (simp_all add: exampleEnv_def)

theorem stream_wire_framing_witness:
  \<open>finalContent (convertToOpenAIResponse (backendResult [assistantItem ''<''])) = Some ''<''
   \<and> responseBody (\<lambda>f. ''0.5'')
         (fst (streamResponse exampleEnv
            (convertToOpenAIResponse (backendResult [assistantItem ''<'']))))
       = ''data: {"choices":[{"delta":{"role":"assistant"},"finish_reason":null,"index":0}],"created":1700000000,"id":"resp_1","model":"@cf/openai/gpt-oss-120b","object":"chat.completion.chunk"}\<newline>\<newline>data: {"choices":[{"delta":{"content":"<"},"finish_reason":null,"index":0}],"created":1700000001,"id":"resp_1","model":"@cf/openai/gpt-oss-120b","object":"chat.completion.chunk"}\<newline>\<newline>data: {"choices":[{"delta":{},"finish_reason":"stop","index":0}],"created":1700000002,"id":"resp_1","model":"@cf/openai/gpt-oss-120b","object":"chat.completion.chunk","usage":{"completion_tokens":5,"prompt_tokens":3,"total_tokens":8}}\<newline>\<newline>\<newline>data: [DONE]\<newline>\<newline>''
   \<and> list_all (\<lambda>b. safeSet (of_char b)) ''<think>''
   \<and> marshal (\<lambda>f. ''0.5'') False (JString ''<think>'') = ''"<think>"''\<close>
proof -
  have t: "finalContent (convertToOpenAIResponse (backendResult [assistantItem ''<'']))
             = Some ''<''"
    by (simp add: finalContent_convert example_texts composeFinal_def)
  have r: "stringToRunes ''<'' = [60]"
    by (simp add: utf8_eval_simps)
  have s: "\<forall>b \<in> set ''<think>''. safeSet (of_char b)"
    by (simp add: safeSet_def)
  note w = stream_wire_framing [OF t, of "\<lambda>f. ''0.5''" exampleEnv]
  from w have body: "responseBody (\<lambda>f. ''0.5'')
         (fst (streamResponse exampleEnv
            (convertToOpenAIResponse (backendResult [assistantItem ''<'']))))
       = ''data: ''
         @ marshal (\<lambda>f. ''0.5'') False
             (startEvent (convertToOpenAIResponse (backendResult [assistantItem ''<'']))
                (Now exampleEnv 0))
         @ ''\<newline>\<newline>''
         @ concat (map (\<lambda>(i, r). ''data: ''
              @ marshal (\<lambda>f. ''0.5'') False
                  (contentEvent (convertToOpenAIResponse (backendResult [assistantItem ''<'']))
                     (Now exampleEnv i) r)
              @ ''\<newline>\<newline>'') (enumerate 1 (stringToRunes ''<'')))
         @ ''data: ''
         @ marshal (\<lambda>f. ''0.5'') False
             (endEvent (convertToOpenAIResponse (backendResult [assistantItem ''<'']))
                (Now exampleEnv (Suc (length (stringToRunes ''<'')))))
         @ ''\<newline>\<newline>\<newline>''
         @ ''data: [DONE]\<newline>\<newline>''"
    by (rule conjunct1)
  from w s have q: "marshal (\<lambda>f. ''0.5'') False (JString ''<think>'')
                      = [dquote] @ ''<think>'' @ [dquote]"
    by blast
  from t body q s show ?thesis
    by (simp add: r example_clock example_start_text example_content_text example_end_text
          dquote_def list_all_iff del: stringToRunes.simps)
qed

text \<open>
  The stream of the empty text against the framing of the specification: the start
  frame is followed by two newlines and the end frame by three, so the bytes are
  neither those of a framing with one newline after each event nor those of a framing
  with two.
\<close>

theorem single_newline_framing_counterexample:
  \<open>finalContent (convertToOpenAIResponse (backendResult [])) = Some []
   \<and> responseBody (\<lambda>f. ''0.5'')
         (fst (streamResponse exampleEnv (convertToOpenAIResponse (backendResult []))))
       = ''data: {"choices":[{"delta":{"role":"assistant"},"finish_reason":null,"index":0}],"created":1700000000,"id":"resp_1","model":"@cf/openai/gpt-oss-120b","object":"chat.completion.chunk"}\<newline>\<newline>data: {"choices":[{"delta":{},"finish_reason":"stop","index":0}],"created":1700000001,"id":"resp_1","model":"@cf/openai/gpt-oss-120b","object":"chat.completion.chunk","usage":{"completion_tokens":5,"prompt_tokens":3,"total_tokens":8}}\<newline>\<newline>\<newline>data: [DONE]\<newline>\<newline>''
   \<and> specFraming (\<lambda>f. ''0.5'') ''\<newline>''
         (events (frames
            (fst (streamResponse exampleEnv (convertToOpenAIResponse (backendResult []))))))
       = ''data: {"choices":[{"delta":{"role":"assistant"},"finish_reason":null,"index":0}],"created":1700000000,"id":"resp_1","model":"@cf/openai/gpt-oss-120b","object":"chat.completion.chunk"}\<newline>data: {"choices":[{"delta":{},"finish_reason":"stop","index":0}],"created":1700000001,"id":"resp_1","model":"@cf/openai/gpt-oss-120b","object":"chat.completion.chunk","usage":{"completion_tokens":5,"prompt_tokens":3,"total_tokens":8}}\<newline>data: [DONE]\<newline>\<newline>''
   \<and> responseBody (\<lambda>f. ''0.5'')
         (fst (streamResponse exampleEnv (convertToOpenAIResponse (backendResult []))))
       \<noteq> specFraming (\<lambda>f. ''0.5'') ''\<newline>''
           (events (frames
              (fst (streamResponse exampleEnv (convertToOpenAIResponse (backendResult []))))))
   \<and> responseBody (\<lambda>f. ''0.5'')
         (fst (streamResponse exampleEnv (convertToOpenAIResponse (backendResult []))))
       \<noteq> specFraming (\<lambda>f. ''0.5'') ''\<newline>\<newline>''
           (events (frames
              (fst (streamResponse exampleEnv (convertToOpenAIResponse (backendResult []))))))\<close>
proof -
  let ?effects = "fst (streamResponse exampleEnv (convertToOpenAIResponse (backendResult [])))"
  have t: "finalContent (convertToOpenAIResponse (backendResult [])) = Some []"
    by (simp add: finalContent_convert composeFinal_def reasoningTextOf_def assistantTextOf_def
          lastText_def backendResult_def)
  have b: \<open>responseBody (\<lambda>f. ''0.5'') ?effects
       = ''data: {"choices":[{"delta":{"role":"assistant"},"finish_reason":null,"index":0}],"created":1700000000,"id":"resp_1","model":"@cf/openai/gpt-oss-120b","object":"chat.completion.chunk"}\<newline>\<newline>data: {"choices":[{"delta":{},"finish_reason":"stop","index":0}],"created":1700000001,"id":"resp_1","model":"@cf/openai/gpt-oss-120b","object":"chat.completion.chunk","usage":{"completion_tokens":5,"prompt_tokens":3,"total_tokens":8}}\<newline>\<newline>\<newline>data: [DONE]\<newline>\<newline>''\<close>
    by (simp add: responseBody_stream [OF t] example_clock example_start_text example_end_text)
  have f1: \<open>specFraming (\<lambda>f. ''0.5'') ''\<newline>'' (events (frames ?effects))
       = ''data: {"choices":[{"delta":{"role":"assistant"},"finish_reason":null,"index":0}],"created":1700000000,"id":"resp_1","model":"@cf/openai/gpt-oss-120b","object":"chat.completion.chunk"}\<newline>data: {"choices":[{"delta":{},"finish_reason":"stop","index":0}],"created":1700000001,"id":"resp_1","model":"@cf/openai/gpt-oss-120b","object":"chat.completion.chunk","usage":{"completion_tokens":5,"prompt_tokens":3,"total_tokens":8}}\<newline>data: [DONE]\<newline>\<newline>''\<close>
    by (simp add: events_frames_stream [OF t] specFraming_def example_clock example_start_text
          example_end_text)
  have f2: \<open>specFraming (\<lambda>f. ''0.5'') ''\<newline>\<newline>'' (events (frames ?effects))
       = ''data: {"choices":[{"delta":{"role":"assistant"},"finish_reason":null,"index":0}],"created":1700000000,"id":"resp_1","model":"@cf/openai/gpt-oss-120b","object":"chat.completion.chunk"}\<newline>\<newline>data: {"choices":[{"delta":{},"finish_reason":"stop","index":0}],"created":1700000001,"id":"resp_1","model":"@cf/openai/gpt-oss-120b","object":"chat.completion.chunk","usage":{"completion_tokens":5,"prompt_tokens":3,"total_tokens":8}}\<newline>\<newline>data: [DONE]\<newline>\<newline>''\<close>
    by (simp add: events_frames_stream [OF t] specFraming_def example_clock example_start_text
          example_end_text)
  have n1: "responseBody (\<lambda>f. ''0.5'') ?effects
              \<noteq> specFraming (\<lambda>f. ''0.5'') ''\<newline>'' (events (frames ?effects))"
    unfolding b f1 by simp
  have n2: "responseBody (\<lambda>f. ''0.5'') ?effects
              \<noteq> specFraming (\<lambda>f. ''0.5'') ''\<newline>\<newline>'' (events (frames ?effects))"
    unfolding b f2 by simp
  from t b f1 n1 n2 show ?thesis by blast
qed

end
